theory Spec2Isabelle
  imports Complex_Main "HOL-Library.Word" "HOL-Library.Sublist"
begin

section \<open>JavaScript values\<close>

text \<open>
  A JavaScript string is a sequence of 16-bit code units; \<open>includes\<close>, \<open>replace\<close> and
  indexing all count code units. ASCII literals of the source are written \<open>asc ''...''\<close>,
  the others as lists of code units.
\<close>

type_synonym jsstring = "16 word list"

definition asc :: "string \<Rightarrow> jsstring" where
  "asc s = map of_char s"

text \<open>
  Numbers. \<open>Finite q\<close> is the finite double of value \<open>q\<close>; the rounding of a decimal
  literal's mantissa to 53 bits is not modelled (no operation of the program computes with
  a coordinate), the overflow of a literal to an infinity is. Minus zero is identified
  with zero: both are falsy and both print as \<open>0\<close>.
\<close>

datatype jsnum = NaN | PosInf | NegInf | Finite rat

text \<open>
  The values a fetched JSON document is made of, with \<open>Undefined\<close> for what a read of a
  missing property or of an index out of range yields. \<open>Obj\<close> lists the members of a
  parsed object in the order of the text; where a name is repeated, \<open>JSON.parse\<close> keeps
  the last value.
\<close>

datatype jsval =
    Undefined
  | Null
  | Bool bool
  | Num jsnum
  | Str jsstring
  | Arr "jsval list"
  | Obj "(jsstring \<times> jsval) list"

datatype error =
    NetworkError jsstring  \<comment> \<open>\<open>Error('Network response was not ok: ' + statusText)\<close>, with the status text\<close>
  | FormatError            \<comment> \<open>\<open>Error('Invalid data format')\<close>\<close>
  | TypeError              \<comment> \<open>thrown by the runtime: property of \<open>null\<close>, call of a non-function,
                                 object without a primitive value\<close>
  | URIError               \<comment> \<open>thrown by \<open>encodeURIComponent\<close> on a lone surrogate\<close>
  | SyntaxError            \<comment> \<open>\<open>response.json()\<close> on a body that is not JSON\<close>
  | FetchFailed            \<comment> \<open>\<open>fetch\<close> rejected\<close>

fun truthy :: "jsval \<Rightarrow> bool" where
  "truthy Undefined = False"
| "truthy Null = False"
| "truthy (Bool b) = b"
| "truthy (Num n) = (n \<noteq> NaN \<and> n \<noteq> Finite 0)"
| "truthy (Str s) = (s \<noteq> [])"
| "truthy (Arr xs) = True"
| "truthy (Obj ps) = True"

text \<open>The source's \<open>a || b\<close>.\<close>

definition orElse :: "jsval \<Rightarrow> jsval \<Rightarrow> jsval" where
  "orElse a b = (if truthy a then a else b)"

fun isArray :: "jsval \<Rightarrow> bool" where
  "isArray (Arr xs) = True"
| "isArray v = False"

fun joinWith :: "jsstring \<Rightarrow> jsstring list \<Rightarrow> jsstring" where
  "joinWith sep [] = []"
| "joinWith sep [x] = x"
| "joinWith sep (x # y # ys) = x @ sep @ joinWith sep (y # ys)"

text \<open>
  \<open>ToString\<close>, as \<open>String(v)\<close>, \<open>parseFloat(v)\<close>, \<open>encodeURIComponent(v)\<close> and a computed
  property key apply it. On an object it first asks for a primitive: the member
  \<open>toString\<close> is called if it is a function, then \<open>valueOf\<close>. A parsed object inherits
  \<open>Object.prototype.toString\<close> unless it has an own member of that name; an own member is
  a parsed value and no function, and \<open>valueOf\<close> (own, so no function, or inherited, so
  returning the object itself) gives no primitive either: the conversion throws a
  \<open>TypeError\<close>. An array is converted by joining the conversions of its elements, \<open>null\<close>
  and \<open>undefined\<close> excepted, so it throws when one of the others does.
\<close>

fun cannotConvert :: "jsval \<Rightarrow> bool" where
  "cannotConvert (Obj ps) = (asc ''toString'' \<in> fst ` set ps)"
| "cannotConvert (Arr xs) = list_ex cannotConvert xs"
| "cannotConvert v = False"

text \<open>
  The string \<open>ToString\<close> returns when it does not throw. The digits \<open>Number::toString\<close>
  prints for a number are the runtime's affair and are taken as the parameter \<open>nts\<close>. An
  array prints as its elements joined by commas, with \<open>null\<close> and \<open>undefined\<close> elements
  empty; an object that inherits \<open>Object.prototype.toString\<close> as \<open>[object Object]\<close>.
\<close>

fun stringOf :: "(jsnum \<Rightarrow> jsstring) \<Rightarrow> jsval \<Rightarrow> jsstring" where
  "stringOf nts Undefined = asc ''undefined''"
| "stringOf nts Null = asc ''null''"
| "stringOf nts (Bool b) = (if b then asc ''true'' else asc ''false'')"
| "stringOf nts (Num n) = nts n"
| "stringOf nts (Str s) = s"
| "stringOf nts (Arr xs) =
     joinWith (asc '','')
       (map (\<lambda>x. if x = Undefined \<or> x = Null then [] else stringOf nts x) xs)"
| "stringOf nts (Obj ps) = asc ''[object Object]''"

definition ToString :: "(jsnum \<Rightarrow> jsstring) \<Rightarrow> jsval \<Rightarrow> error + jsstring" where
  "ToString nts v = (if cannotConvert v then Inl TypeError else Inr (stringOf nts v))"

text \<open>Decimal digits of a natural number, as string concatenation prints a count.\<close>

fun showNat :: "nat \<Rightarrow> jsstring" where
  "showNat n =
     (if n < 10 then [0x30 + of_nat n]
      else showNat (n div 10) @ [0x30 + of_nat (n mod 10)])"

subsection \<open>Property reads\<close>

text \<open>
  \<open>v.n\<close> for a value \<open>v\<close> of a parsed document. Reading a property of \<open>null\<close> or
  \<open>undefined\<close> throws. The names defined on the built-in prototypes are not modelled:
  of the names this program reads (\<open>keys\<close>, \<open>data\<close>, \<open>last_updated\<close>, \<open>py\<close>, \<open>px\<close>, \<open>NAME\<close>,
  \<open>addr\<close>, \<open>TEL\<close>, \<open>flavorType\<close>, \<open>markerColor\<close>) only \<open>keys\<close> is one, on arrays, and
  that read is followed by \<open>Array.isArray(rawData.data)\<close>, false for every array.
\<close>

definition lookupLast :: "(jsstring \<times> jsval) list \<Rightarrow> jsstring \<Rightarrow> jsval" where
  "lookupLast ps n = (case map_of (rev ps) n of Some v \<Rightarrow> v | None \<Rightarrow> Undefined)"

fun getProp :: "jsval \<Rightarrow> jsstring \<Rightarrow> error + jsval" where
  "getProp Undefined n = Inl TypeError"
| "getProp Null n = Inl TypeError"
| "getProp (Obj ps) n = Inr (lookupLast ps n)"
| "getProp v n = Inr Undefined"

text \<open>\<open>row[index]\<close>: an element of an array, a code unit of a string, a member of an object.\<close>

fun getIndex :: "jsval \<Rightarrow> nat \<Rightarrow> error + jsval" where
  "getIndex Undefined i = Inl TypeError"
| "getIndex Null i = Inl TypeError"
| "getIndex (Arr xs) i = Inr (if i < length xs then xs ! i else Undefined)"
| "getIndex (Str s) i = Inr (if i < length s then Str [s ! i] else Undefined)"
| "getIndex (Obj ps) i = Inr (lookupLast ps (showNat i))"
| "getIndex v i = Inr Undefined"

subsection \<open>String methods\<close>

text \<open>
  \<open>x.includes(lit)\<close> with a string literal: the substring test on a string, membership on
  an array; any other value has no such method and the call throws.
\<close>

fun includes_js :: "jsval \<Rightarrow> jsstring \<Rightarrow> error + bool" where
  "includes_js (Str s) lit = Inr (sublist lit s)"
| "includes_js (Arr xs) lit = Inr (Str lit \<in> set xs)"
| "includes_js v lit = Inl TypeError"

text \<open>\<open>s.replace(/c/g, rep)\<close> for a single character \<open>c\<close>.\<close>

definition replaceAll :: "16 word \<Rightarrow> jsstring \<Rightarrow> jsstring \<Rightarrow> jsstring" where
  "replaceAll c rep s = concat (map (\<lambda>x. if x = c then rep else [x]) s)"

text \<open>\<open>s.replace(pat, rep)\<close> with a string pattern: the first occurrence only.\<close>

fun replaceFirst :: "jsstring \<Rightarrow> jsstring \<Rightarrow> jsstring \<Rightarrow> jsstring" where
  "replaceFirst pat rep [] = (if pat = [] then rep else [])"
| "replaceFirst pat rep (c # cs) =
     (if prefix pat (c # cs) then rep @ drop (length pat) (c # cs)
      else c # replaceFirst pat rep cs)"

subsection \<open>parseFloat\<close>

text \<open>
  \<open>parseFloat(string)\<close>: leading white space is dropped, then the longest prefix that is a
  \<open>StrDecimalLiteral\<close> is read: an optional sign, then \<open>Infinity\<close> or digits with an
  optional fraction and an optional exponent. No such prefix gives \<open>NaN\<close>.
\<close>

definition isWhiteSpace :: "16 word \<Rightarrow> bool" where
  "isWhiteSpace c \<longleftrightarrow>
     c \<in> {0x09, 0x0A, 0x0B, 0x0C, 0x0D, 0x20, 0xA0, 0x1680, 0x2028, 0x2029,
          0x202F, 0x205F, 0x3000, 0xFEFF}
     \<or> (0x2000 \<le> c \<and> c \<le> 0x200A)"

definition isDigit :: "16 word \<Rightarrow> bool" where
  "isDigit c \<longleftrightarrow> 0x30 \<le> c \<and> c \<le> 0x39"

definition digitsVal :: "jsstring \<Rightarrow> nat" where
  "digitsVal ds = foldl (\<lambda>a c. 10 * a + unat (c - 0x30)) 0 ds"

text \<open>\<open>SignedInteger\<close> at the head of \<open>s\<close>: digits with an optional sign.\<close>

definition signedInteger :: "jsstring \<Rightarrow> int option" where
  "signedInteger s =
     (case s of
        [] \<Rightarrow> None
      | c # cs \<Rightarrow>
          if c = 0x2B then
            (if takeWhile isDigit cs = [] then None
             else Some (int (digitsVal (takeWhile isDigit cs))))
          else if c = 0x2D then
            (if takeWhile isDigit cs = [] then None
             else Some (- int (digitsVal (takeWhile isDigit cs))))
          else if takeWhile isDigit s = [] then None
          else Some (int (digitsVal (takeWhile isDigit s))))"

text \<open>The value of an \<open>ExponentPart\<close> at the head of \<open>s\<close>, 0 when there is none.\<close>

definition exponentPart :: "jsstring \<Rightarrow> int" where
  "exponentPart s =
     (case s of
        [] \<Rightarrow> 0
      | c # cs \<Rightarrow>
          if c = 0x65 \<or> c = 0x45 then
            (case signedInteger cs of None \<Rightarrow> 0 | Some e \<Rightarrow> e)
          else 0)"

definition scale10 :: "nat \<Rightarrow> int \<Rightarrow> rat" where
  "scale10 m e = (if 0 \<le> e then of_nat m * 10 ^ nat e else of_nat m / 10 ^ nat (- e))"

text \<open>
  A literal whose value is at least \<open>2^1024 - 2^970\<close>, half way between the largest double
  and \<open>2^1024\<close>, rounds to an infinity.
\<close>

definition toDouble :: "rat \<Rightarrow> jsnum" where
  "toDouble q =
     (if 2 ^ 1024 - 2 ^ 970 \<le> q then PosInf
      else if q \<le> - (2 ^ 1024 - 2 ^ 970) then NegInf
      else Finite q)"

definition strUnsignedDecimalLiteral :: "jsstring \<Rightarrow> rat option" where
  "strUnsignedDecimalLiteral s =
     (let ip = takeWhile isDigit s; r = dropWhile isDigit s
      in case r of
           [] \<Rightarrow> if ip = [] then None else Some (scale10 (digitsVal ip) 0)
         | c # r1 \<Rightarrow>
             if c = 0x2E then
               (let fp = takeWhile isDigit r1; r2 = dropWhile isDigit r1
                in if ip = [] \<and> fp = [] then None
                   else Some (scale10 (digitsVal (ip @ fp))
                                (exponentPart r2 - int (length fp))))
             else if ip = [] then None
             else Some (scale10 (digitsVal ip) (exponentPart r)))"

definition strDecimalLiteral :: "bool \<Rightarrow> jsstring \<Rightarrow> jsnum" where
  "strDecimalLiteral neg s =
     (if prefix (asc ''Infinity'') s then (if neg then NegInf else PosInf)
      else case strUnsignedDecimalLiteral s of
             None \<Rightarrow> NaN
           | Some q \<Rightarrow> toDouble (if neg then - q else q))"

definition parseFloatStr :: "jsstring \<Rightarrow> jsnum" where
  "parseFloatStr s =
     (case dropWhile isWhiteSpace s of
        [] \<Rightarrow> NaN
      | c # cs \<Rightarrow>
          if c = 0x2B then strDecimalLiteral False cs
          else if c = 0x2D then strDecimalLiteral True cs
          else strDecimalLiteral False (c # cs))"

text \<open>
  \<open>parseFloat(v)\<close> is \<open>parseFloat(ToString(v))\<close>, and throws when \<open>ToString\<close> does. The
  number read from the string: what \<open>Number::toString\<close> prints parses back to the same
  number; an array prints as its elements joined by commas, and a comma ends both the
  white space and the literal, so its first element decides; \<open>null\<close>, \<open>true\<close>,
  \<open>[object Object]\<close> and the empty string have no numeric prefix.
\<close>

fun numericPrefix :: "jsval \<Rightarrow> jsnum" where
  "numericPrefix (Str s) = parseFloatStr s"
| "numericPrefix (Num n) = n"
| "numericPrefix (Arr (x # xs)) = numericPrefix x"
| "numericPrefix v = NaN"

definition parseFloat :: "jsval \<Rightarrow> error + jsnum" where
  "parseFloat v = (if cannotConvert v then Inl TypeError else Inr (numericPrefix v))"

definition isNaN :: "jsnum \<Rightarrow> bool" where
  "isNaN n \<longleftrightarrow> n = NaN"

section \<open>Configuration (\<open>config.js\<close>)\<close>

record config =
  MARKERS_BLUE :: jsstring
  MARKERS_RED :: jsstring
  MARKERS_BLUE_STRIPED :: jsstring
  MARKERS_RED_STRIPED :: jsstring
  MARKERS_DEFAULT :: jsstring
  COLORS_BLUE :: jsstring
  COLORS_RED :: jsstring
  POPUP_FLAVOR :: jsstring
  POPUP_FLAVOR_MULTILINE :: jsstring
  POPUP_LINK :: jsstring

definition CONFIG :: config where
  "CONFIG = \<lparr>
     MARKERS_BLUE = asc ''blue'',
     MARKERS_RED = asc ''red'',
     MARKERS_BLUE_STRIPED = asc ''blue-striped'',
     MARKERS_RED_STRIPED = asc ''red-striped'',
     MARKERS_DEFAULT = asc ''blue'',
     COLORS_BLUE = asc ''#2b82cb'',
     COLORS_RED = asc ''#e04e39'',
     POPUP_FLAVOR = asc ''store-popup-flavor'',
     POPUP_FLAVOR_MULTILINE = asc ''store-popup-flavor--multiline'',
     POPUP_LINK = asc ''store-popup-link'' \<rparr>"

section \<open>The worker (\<open>store.worker.js\<close>)\<close>

text \<open>
  The object \<open>storeObj\<close> that the columnar branch builds for a row: its own properties and
  its prototype, \<open>Object.prototype\<close> at first. The prototype matters because a key may be
  \<open>__proto__\<close>: assigning an object or \<open>null\<close> to that name goes to the accessor inherited
  from \<open>Object.prototype\<close> and replaces the prototype instead of creating a property.
\<close>

datatype prototype = ObjectPrototype | Proto jsval

record storeObj =
  own :: "jsstring \<rightharpoonup> jsval"
  proto :: prototype

definition emptyObj :: storeObj where
  "emptyObj = \<lparr> own = Map.empty, proto = ObjectPrototype \<rparr>"

text \<open>
  Whether an assignment to \<open>__proto__\<close> reaches the inherited accessor: the object has no
  own property of that name, and neither has a parsed object standing as its prototype;
  under a \<open>null\<close> prototype there is no accessor at all.
\<close>

definition protoSetterVisible :: "storeObj \<Rightarrow> bool" where
  "protoSetterVisible obj \<longleftrightarrow>
     own obj (asc ''__proto__'') = None \<and>
     (case proto obj of
        ObjectPrototype \<Rightarrow> True
      | Proto (Obj ps) \<Rightarrow> map_of ps (asc ''__proto__'') = None
      | Proto (Arr xs) \<Rightarrow> True
      | Proto v \<Rightarrow> False)"

text \<open>\<open>storeObj[key] = v\<close>, the key already a string.\<close>

definition setProp :: "storeObj \<Rightarrow> jsstring \<Rightarrow> jsval \<Rightarrow> storeObj" where
  "setProp obj k v =
     (if k = asc ''__proto__'' \<and> protoSetterVisible obj then
        (case v of
           Obj ps \<Rightarrow> obj\<lparr>proto := Proto v\<rparr>
         | Arr xs \<Rightarrow> obj\<lparr>proto := Proto v\<rparr>
         | Null \<Rightarrow> obj\<lparr>proto := Proto Null\<rparr>
         | _ \<Rightarrow> obj)
      else obj\<lparr>own := (own obj)(k \<mapsto> v)\<rparr>)"

text \<open>
  Reading a property of \<open>storeObj\<close>: its own, else its prototype's. As for \<open>getProp\<close>, the
  names of the built-in prototypes are not modelled, so an array or \<open>Object.prototype\<close> as
  prototype contributes nothing.
\<close>

definition readStoreObj :: "storeObj \<Rightarrow> jsstring \<Rightarrow> jsval" where
  "readStoreObj obj n =
     (case own obj n of
        Some v \<Rightarrow> v
      | None \<Rightarrow> (case proto obj of Proto (Obj ps) \<Rightarrow> lookupLast ps n | _ \<Rightarrow> Undefined))"

text \<open>
  What \<open>normalizeStoreData\<close> is called with: an element of the legacy array as parsed, or
  the object built for a row.
\<close>

datatype rawStore = Element jsval | Built storeObj

fun readProp :: "rawStore \<Rightarrow> jsstring \<Rightarrow> error + jsval" where
  "readProp (Element v) n = getProp v n"
| "readProp (Built obj) n = Inr (readStoreObj obj n)"

definition getField :: "rawStore \<Rightarrow> jsstring \<Rightarrow> jsval" where
  "getField rawStore n = (case readProp rawStore n of Inl e \<Rightarrow> Undefined | Inr v \<Rightarrow> v)"

subsection \<open>\<open>normalizeStoreData\<close>\<close>

record store =
  name :: jsval
  latitude :: jsnum
  longitude :: jsnum
  address :: jsval
  phone :: jsval
  flavorType :: jsval
  markerColor :: jsval
  isSpecialShape :: bool
  displayColor :: jsstring
  isValid :: bool

text \<open>\<open>Rejected\<close> is the object \<open>{ isValid: false }\<close>, \<open>Accepted\<close> the object of ten fields.\<close>

datatype normalized = Rejected | Accepted store

text \<open>The marker text \<open>U+7279 U+6B8A U+9020 U+578B\<close> that \<open>flavorType\<close> is searched for.\<close>

definition specialShapeText :: jsstring where
  "specialShapeText = [0x7279, 0x6B8A, 0x9020, 0x578B]"

text \<open>
  \<open>rawStore.py && rawStore.px && !isNaN(parseFloat(rawStore.py)) &&
  !isNaN(parseFloat(rawStore.px))\<close>, evaluated from left to right: a falsy operand ends
  it, so \<open>px\<close> is parsed only when \<open>py\<close> parsed to a number.
\<close>

definition hasCoordinates :: "jsval \<Rightarrow> jsval \<Rightarrow> error + bool" where
  "hasCoordinates py px =
     (if \<not> truthy py then Inr False
      else if \<not> truthy px then Inr False
      else
        (case parseFloat py of
           Inl e \<Rightarrow> Inl e
         | Inr lat \<Rightarrow>
             (if isNaN lat then Inr False
              else (case parseFloat px of Inl e \<Rightarrow> Inl e | Inr lng \<Rightarrow> Inr (\<not> isNaN lng)))))"

text \<open>
  The first read, \<open>rawStore.py\<close>, throws when \<open>rawStore\<close> is \<open>null\<close>; once it has
  succeeded the later reads of the same value cannot throw. The calls of \<open>parseFloat\<close>
  and the two calls of \<open>includes\<close> can.
\<close>

definition normalizeStoreData :: "rawStore \<Rightarrow> config \<Rightarrow> error + normalized" where
  "normalizeStoreData rawStore config =
     (case readProp rawStore (asc ''py'') of
        Inl e \<Rightarrow> Inl e
      | Inr py \<Rightarrow>
          (case hasCoordinates py (getField rawStore (asc ''px'')) of
             Inl e \<Rightarrow> Inl e
           | Inr valid \<Rightarrow>
               (if \<not> valid then Inr Rejected
                else
                  (let flavor = orElse (getField rawStore (asc ''flavorType'')) (Str []);
                       color = orElse (getField rawStore (asc ''markerColor''))
                                 (Str (MARKERS_DEFAULT config))
                   in (case includes_js flavor specialShapeText of
                         Inl e \<Rightarrow> Inl e
                       | Inr special \<Rightarrow>
                           (case includes_js color (asc ''red'') of
                              Inl e \<Rightarrow> Inl e
                            | Inr red \<Rightarrow>
                                (case parseFloat py of
                                   Inl e \<Rightarrow> Inl e
                                 | Inr lat \<Rightarrow>
                                     (case parseFloat (getField rawStore (asc ''px'')) of
                                        Inl e \<Rightarrow> Inl e
                                      | Inr lng \<Rightarrow>
                                          Inr (Accepted
                                            \<lparr> name = orElse (getField rawStore (asc ''NAME''))
                                                       (Str (asc ''Unknown Store'')),
                                              latitude = lat,
                                              longitude = lng,
                                              address =
                                                orElse (getField rawStore (asc ''addr'')) (Str []),
                                              phone =
                                                orElse (getField rawStore (asc ''TEL'')) (Str []),
                                              flavorType = flavor,
                                              markerColor = color,
                                              isSpecialShape = special,
                                              displayColor =
                                                (if red then COLORS_RED config
                                                 else COLORS_BLUE config),
                                              isValid = True \<rparr>)))))))))"

subsection \<open>\<open>fetchAndProcessStores\<close>\<close>

text \<open>\<open>Array.prototype.map\<close> with a callback that may throw: the first throw ends it.\<close>

fun mapE :: "('a \<Rightarrow> error + 'b) \<Rightarrow> 'a list \<Rightarrow> error + 'b list" where
  "mapE f [] = Inr []"
| "mapE f (x # xs) =
     (case f x of
        Inl e \<Rightarrow> Inl e
      | Inr y \<Rightarrow> (case mapE f xs of Inl e \<Rightarrow> Inl e | Inr ys \<Rightarrow> Inr (y # ys)))"

text \<open>\<open>.filter(store => store.isValid)\<close>\<close>

fun keepValid :: "normalized list \<Rightarrow> store list" where
  "keepValid [] = []"
| "keepValid (Rejected # ns) = keepValid ns"
| "keepValid (Accepted s # ns) = (if isValid s then s # keepValid ns else keepValid ns)"

text \<open>
  \<open>keys.forEach((key, index) => { storeObj[key] = row[index]; })\<close> from index \<open>i\<close> on.
  The key becomes a property name by \<open>ToString\<close>; that conversion and the read of
  \<open>row[index]\<close> can each throw, a \<open>TypeError\<close> either way.
\<close>

fun assignKeys ::
  "(jsnum \<Rightarrow> jsstring) \<Rightarrow> jsval list \<Rightarrow> nat \<Rightarrow> jsval \<Rightarrow> storeObj \<Rightarrow> error + storeObj"
where
  "assignKeys nts [] i row obj = Inr obj"
| "assignKeys nts (key # ks) i row obj =
     (case getIndex row i of
        Inl e \<Rightarrow> Inl e
      | Inr v \<Rightarrow>
          (case ToString nts key of
             Inl e \<Rightarrow> Inl e
           | Inr k \<Rightarrow> assignKeys nts ks (Suc i) row (setProp obj k v)))"

text \<open>The callback of \<open>rawData.data.map\<close>; a \<open>keys\<close> that is no array has no \<open>forEach\<close>.\<close>

definition expandRow ::
  "(jsnum \<Rightarrow> jsstring) \<Rightarrow> config \<Rightarrow> jsval \<Rightarrow> jsval \<Rightarrow> error + normalized"
where
  "expandRow nts config keys row =
     (case keys of
        Arr ks \<Rightarrow>
          (case assignKeys nts ks 0 row emptyObj of
             Inl e \<Rightarrow> Inl e
           | Inr obj \<Rightarrow> normalizeStoreData (Built obj) config)
      | _ \<Rightarrow> Inl TypeError)"

text \<open>
  \<open>if (rawData.length > 0 && rawData[0].last_updated) lastUpdated = rawData[0].last_updated\<close>,
  from the initial \<open>''\<close>.
\<close>

definition legacyLastUpdated :: "jsval list \<Rightarrow> error + jsval" where
  "legacyLastUpdated xs =
     (case xs of
        [] \<Rightarrow> Inr (Str [])
      | x # rest \<Rightarrow>
          (case getProp x (asc ''last_updated'') of
             Inl e \<Rightarrow> Inl e
           | Inr v \<Rightarrow> Inr (if truthy v then v else Str [])))"

definition field :: "jsval \<Rightarrow> jsstring \<Rightarrow> jsval" where
  "field v n = (case getProp v n of Inl e \<Rightarrow> Undefined | Inr x \<Rightarrow> x)"

definition elements :: "jsval \<Rightarrow> jsval list" where
  "elements v = (case v of Arr xs \<Rightarrow> xs | _ \<Rightarrow> [])"

text \<open>
  The body of the \<open>try\<close> after \<open>response.json()\<close>: the stores and \<open>lastUpdated\<close>.
  The first read, \<open>rawData.keys\<close>, throws on \<open>null\<close>.
\<close>

definition processPayload ::
  "(jsnum \<Rightarrow> jsstring) \<Rightarrow> config \<Rightarrow> jsval \<Rightarrow> error + store list \<times> jsval"
where
  "processPayload nts config rawData =
     (case getProp rawData (asc ''keys'') of
        Inl e \<Rightarrow> Inl e
      | Inr keys \<Rightarrow>
          (if truthy keys \<and> isArray (field rawData (asc ''data'')) then
             (case mapE (expandRow nts config keys)
                     (elements (field rawData (asc ''data''))) of
                Inl e \<Rightarrow> Inl e
              | Inr ns \<Rightarrow>
                  Inr (keepValid ns, orElse (field rawData (asc ''last_updated'')) (Str [])))
           else if isArray rawData then
             (case legacyLastUpdated (elements rawData) of
                Inl e \<Rightarrow> Inl e
              | Inr lastUpdated \<Rightarrow>
                  (case mapE (\<lambda>x. normalizeStoreData (Element x) config)
                          (elements rawData) of
                     Inl e \<Rightarrow> Inl e
                   | Inr ns \<Rightarrow> Inr (keepValid ns, lastUpdated)))
           else Inl FormatError))"

text \<open>
  What \<open>fetch\<close> resolved with: \<open>response.ok\<close>, \<open>response.statusText\<close> and what
  \<open>response.json()\<close> gives, \<open>None\<close> when the body is not JSON and the call rejects.
\<close>

record response =
  ok :: bool
  statusText :: jsstring
  json :: "jsval option"

text \<open>The message posted to the main thread; \<open>ERROR\<close> stands for its \<open>error.message\<close>.\<close>

datatype message = SUCCESS "store list" jsval | ERROR error

text \<open>
  \<open>fetchAndProcessStores\<close>, given what \<open>fetch(config.DATA_URL)\<close> did: \<open>None\<close> when it
  rejected, the response otherwise. Whatever is thrown inside the \<open>try\<close> is caught and
  posted as an \<open>ERROR\<close>.
\<close>

definition fetchAndProcessStores ::
  "(jsnum \<Rightarrow> jsstring) \<Rightarrow> config \<Rightarrow> response option \<Rightarrow> message"
where
  "fetchAndProcessStores nts config fetched =
     (case fetched of
        None \<Rightarrow> ERROR FetchFailed
      | Some resp \<Rightarrow>
          if \<not> ok resp then ERROR (NetworkError (statusText resp))
          else
            (case json resp of
               None \<Rightarrow> ERROR SyntaxError
             | Some rawData \<Rightarrow>
                 (case processPayload nts config rawData of
                    Inl e \<Rightarrow> ERROR e
                  | Inr (stores, lastUpdated) \<Rightarrow> SUCCESS stores lastUpdated)))"

section \<open>\<open>UIHelpers\<close>\<close>

definition escapeHtml :: "(jsnum \<Rightarrow> jsstring) \<Rightarrow> jsval \<Rightarrow> error + jsstring" where
  \<open>escapeHtml nts text =
     (if \<not> truthy text then Inr []
      else
        (case ToString nts text of
           Inl e \<Rightarrow> Inl e
         | Inr s \<Rightarrow>
             Inr (replaceAll 0x27 (asc ''&#039;'')
                   (replaceAll 0x22 (asc ''&quot;'')
                     (replaceAll 0x3E (asc ''&gt;'')
                       (replaceAll 0x3C (asc ''&lt;'')
                         (replaceAll 0x26 (asc ''&amp;'') s)))))))\<close>

text \<open>
  \<open>encodeURIComponent\<close> on a string: the characters \<open>A-Z a-z 0-9 - _ . ! ~ * ' ( )\<close> stay,
  every other code point is written as the bytes of its UTF-8 encoding, each as \<open>%XX\<close>;
  a surrogate without its partner throws.
\<close>

definition uriUnreserved :: "16 word \<Rightarrow> bool" where
  "uriUnreserved c \<longleftrightarrow>
     (0x41 \<le> c \<and> c \<le> 0x5A) \<or> (0x61 \<le> c \<and> c \<le> 0x7A) \<or> (0x30 \<le> c \<and> c \<le> 0x39)
     \<or> c \<in> {0x2D, 0x5F, 0x2E, 0x21, 0x7E, 0x2A, 0x27, 0x28, 0x29}"

definition hexDigit :: "nat \<Rightarrow> 16 word" where
  "hexDigit n = (if n < 10 then 0x30 + of_nat n else 0x41 + of_nat (n - 10))"

definition percentByte :: "nat \<Rightarrow> jsstring" where
  "percentByte b = [0x25, hexDigit (b div 16), hexDigit (b mod 16)]"

definition utf8 :: "nat \<Rightarrow> nat list" where
  "utf8 cp =
     (if cp < 0x80 then [cp]
      else if cp < 0x800 then [0xC0 + cp div 64, 0x80 + cp mod 64]
      else if cp < 0x10000 then
        [0xE0 + cp div 4096, 0x80 + (cp div 64) mod 64, 0x80 + cp mod 64]
      else
        [0xF0 + cp div 262144, 0x80 + (cp div 4096) mod 64,
         0x80 + (cp div 64) mod 64, 0x80 + cp mod 64])"

definition percentEncode :: "nat \<Rightarrow> jsstring" where
  "percentEncode cp = concat (map percentByte (utf8 cp))"

fun uriEncode :: "jsstring \<Rightarrow> error + jsstring" where
  "uriEncode [] = Inr []"
| "uriEncode (c # cs) =
     (if uriUnreserved c then
        (case uriEncode cs of Inl e \<Rightarrow> Inl e | Inr r \<Rightarrow> Inr (c # r))
      else if 0xDC00 \<le> c \<and> c \<le> 0xDFFF then Inl URIError
      else if 0xD800 \<le> c \<and> c \<le> 0xDBFF then
        (case cs of
           [] \<Rightarrow> Inl URIError
         | d # ds \<Rightarrow>
             if 0xDC00 \<le> d \<and> d \<le> 0xDFFF then
               (case uriEncode ds of
                  Inl e \<Rightarrow> Inl e
                | Inr r \<Rightarrow>
                    Inr (percentEncode
                           (0x10000 + (unat c - 0xD800) * 0x400 + (unat d - 0xDC00)) @ r))
             else Inl URIError)
      else
        (case uriEncode cs of
           Inl e \<Rightarrow> Inl e
         | Inr r \<Rightarrow> Inr (percentEncode (unat c) @ r)))"

text \<open>\<open>encodeURIComponent(v)\<close> encodes \<open>ToString(v)\<close>.\<close>

definition encodeURIComponent :: "(jsnum \<Rightarrow> jsstring) \<Rightarrow> jsval \<Rightarrow> error + jsstring" where
  "encodeURIComponent nts v =
     (case ToString nts v of Inl e \<Rightarrow> Inl e | Inr s \<Rightarrow> uriEncode s)"

text \<open>The fixed text of the popup template, between its placeholders.\<close>

definition popupOpen :: jsstring where
  \<open>popupOpen = asc ''\<newline>            <div class="store-popup">\<newline>                <b>\<newline>                    <a href="''\<close>

definition popupAfterUrl :: jsstring where
  \<open>popupAfterUrl = asc ''" \<newline>                       target="_blank" \<newline>                       rel="noopener noreferrer" \<newline>                       class="''\<close>

definition popupAfterLinkClass :: jsstring where
  \<open>popupAfterLinkClass = asc ''">\<newline>                        ''\<close>

definition popupAfterName :: jsstring where
  \<open>popupAfterName = asc ''\<newline>                    </a>\<newline>                </b><br>\<newline>                <span class="''\<close>

definition popupAfterFlavorClass :: jsstring where
  \<open>popupAfterFlavorClass = asc ''" style="''\<close>

definition popupAfterStyle :: jsstring where
  \<open>popupAfterStyle = asc ''">\<newline>                    ''\<close>

definition popupAfterFlavor :: jsstring where
  \<open>popupAfterFlavor = asc ''\<newline>                </span><br>\<newline>                '' @ [0x5730, 0x5740] @ asc '': ''\<close>

definition popupAfterAddress :: jsstring where
  \<open>popupAfterAddress = asc ''<br>\<newline>                '' @ [0x96FB, 0x8A71] @ asc '': ''\<close>

definition popupClose :: jsstring where
  \<open>popupClose = asc ''\<newline>            </div>\<newline>        ''\<close>

text \<open>
  \<open>createStorePopupContent\<close>: the name is escaped, then encoded for the link, then the
  address, the phone and the flavour text are escaped, in this order; the first
  conversion that throws ends it.
\<close>

definition createStorePopupContent ::
  "(jsnum \<Rightarrow> jsstring) \<Rightarrow> config \<Rightarrow> store \<Rightarrow> error + jsstring"
where
  \<open>createStorePopupContent nts config s =
     (case escapeHtml nts (name s) of
        Inl e \<Rightarrow> Inl e
      | Inr safeName \<Rightarrow>
     (case encodeURIComponent nts (name s) of
        Inl e \<Rightarrow> Inl e
      | Inr encoded \<Rightarrow>
     (case escapeHtml nts (address s) of
        Inl e \<Rightarrow> Inl e
      | Inr safeAddress \<Rightarrow>
     (case escapeHtml nts (phone s) of
        Inl e \<Rightarrow> Inl e
      | Inr safePhone \<Rightarrow>
     (case escapeHtml nts (flavorType s) of
        Inl e \<Rightarrow> Inl e
      | Inr flavorEscaped \<Rightarrow>
          (let mapUrl = asc ''https://www.google.com/maps/search/'' @ encoded;
               colorStyle = asc ''color: '' @ displayColor s @ asc '';'';
               flavorHtml =
                 (if isSpecialShape s
                  then replaceFirst (asc '' ('') (asc ''<br>('') flavorEscaped
                  else flavorEscaped);
               flavorClass =
                 (if isSpecialShape s
                  then POPUP_FLAVOR config @ asc '' '' @ POPUP_FLAVOR_MULTILINE config
                  else POPUP_FLAVOR config)
           in Inr (popupOpen @ mapUrl @ popupAfterUrl @ POPUP_LINK config
                   @ popupAfterLinkClass @ safeName @ popupAfterName @ flavorClass
                   @ popupAfterFlavorClass @ colorStyle @ popupAfterStyle @ flavorHtml
                   @ popupAfterFlavor @ safeAddress @ popupAfterAddress @ safePhone
                   @ popupClose)))))))\<close>

record divIcon =
  className :: jsstring
  html :: jsstring
  iconSize :: "int \<times> int"
  iconAnchor :: "(int \<times> int) option"
  popupAnchor :: "(int \<times> int) option"

definition createPinIcon :: "jsstring \<Rightarrow> divIcon" where
  \<open>createPinIcon cls = \<lparr>
     className = asc ''pin-wrapper'',
     html = asc ''<div class="custom-pin '' @ cls @ asc ''"></div>'',
     iconSize = (30, 30),
     iconAnchor = Some (15, 36),
     popupAnchor = Some (0, - 36) \<rparr>\<close>

section \<open>\<open>MapController\<close>\<close>

text \<open>
  \<open>this.icons\<close> is a plain object used as a table. A read \<open>this.icons[k]\<close> finds the four
  pins stored by \<open>_initIcons\<close> and, for the names below, the member that every plain
  object inherits from \<open>Object.prototype\<close>, which is a function or an object, so truthy,
  and no icon.
\<close>

datatype iconSlot = Pin divIcon | Inherited jsstring

definition objectPrototypeNames :: "jsstring list" where
  "objectPrototypeNames = map asc
     [''constructor'', ''hasOwnProperty'', ''isPrototypeOf'', ''propertyIsEnumerable'',
      ''toLocaleString'', ''toString'', ''valueOf'', ''__proto__'', ''__defineGetter__'',
      ''__defineSetter__'', ''__lookupGetter__'', ''__lookupSetter__'']"

definition initIcons :: "config \<Rightarrow> (jsstring \<rightharpoonup> divIcon)" where
  "initIcons config =
     (((Map.empty
        (MARKERS_BLUE config \<mapsto> createPinIcon (asc ''marker-blue'')))
        (MARKERS_RED config \<mapsto> createPinIcon (asc ''marker-red'')))
        (MARKERS_BLUE_STRIPED config \<mapsto> createPinIcon (asc ''marker-blue-striped'')))
        (MARKERS_RED_STRIPED config \<mapsto> createPinIcon (asc ''marker-red-striped''))"

definition lookupIcon :: "(jsstring \<rightharpoonup> divIcon) \<Rightarrow> jsstring \<Rightarrow> iconSlot option" where
  "lookupIcon icons k =
     (case icons k of
        Some d \<Rightarrow> Some (Pin d)
      | None \<Rightarrow> if k \<in> set objectPrototypeNames then Some (Inherited k) else None)"

text \<open>
  \<open>this.icons[store.markerColor] || this.icons[CONFIG.MARKERS.DEFAULT]\<close>; the token
  becomes a property name by \<open>ToString\<close>.
\<close>

definition iconFor ::
  "(jsnum \<Rightarrow> jsstring) \<Rightarrow> config \<Rightarrow> (jsstring \<rightharpoonup> divIcon) \<Rightarrow> store
     \<Rightarrow> error + iconSlot option"
where
  "iconFor nts config icons s =
     (case ToString nts (markerColor s) of
        Inl e \<Rightarrow> Inl e
      | Inr k \<Rightarrow>
          (case lookupIcon icons k of
             Some i \<Rightarrow> Inr (Some i)
           | None \<Rightarrow> Inr (lookupIcon icons (MARKERS_DEFAULT config))))"

record marker =
  latlng :: "jsnum \<times> jsnum"
  icon :: "iconSlot option"
  optionsMarkerColor :: jsval
  popup :: jsstring

text \<open>The body of the loop of \<open>renderMarkers\<close>: the icon, the popup, then the marker.\<close>

definition makeMarker ::
  "(jsnum \<Rightarrow> jsstring) \<Rightarrow> config \<Rightarrow> (jsstring \<rightharpoonup> divIcon) \<Rightarrow> store \<Rightarrow> error + marker"
where
  "makeMarker nts config icons s =
     (case iconFor nts config icons s of
        Inl e \<Rightarrow> Inl e
      | Inr i \<Rightarrow>
          (case createStorePopupContent nts config s of
             Inl e \<Rightarrow> Inl e
           | Inr popupContent \<Rightarrow>
               Inr \<lparr> latlng = (latitude s, longitude s),
                     icon = i,
                     optionsMarkerColor = markerColor s,
                     popup = popupContent \<rparr>))"

text \<open>
  \<open>renderMarkers\<close>: nothing without a markers layer; else the layer is cleared and gets
  one marker for each store, in order. The result is the new content of the layer.
  What Leaflet later does with a marker and its icon is outside the repository.
\<close>

definition renderMarkers ::
  "(jsnum \<Rightarrow> jsstring) \<Rightarrow> config \<Rightarrow> (jsstring \<rightharpoonup> divIcon) \<Rightarrow> marker list option
     \<Rightarrow> store list \<Rightarrow> error + marker list option"
where
  "renderMarkers nts config icons markersLayer stores =
     (case markersLayer of
        None \<Rightarrow> Inr None
      | Some old \<Rightarrow>
          (case mapE (makeMarker nts config icons) stores of
             Inl e \<Rightarrow> Inl e
           | Inr markers \<Rightarrow> Inr (Some markers)))"

text \<open>
  \<open>iconCreateFunction\<close> of the cluster group, on the child markers of a cluster.
  The loop counts the markers whose \<open>markerColor\<close> option is truthy and includes \<open>red\<close>.
\<close>

fun countRed :: "marker list \<Rightarrow> nat \<Rightarrow> error + nat" where
  "countRed [] redCount = Inr redCount"
| "countRed (m # ms) redCount =
     (if truthy (optionsMarkerColor m) then
        (case includes_js (optionsMarkerColor m) (asc ''red'') of
           Inl e \<Rightarrow> Inl e
         | Inr red \<Rightarrow> countRed ms (if red then Suc redCount else redCount))
      else countRed ms redCount)"

definition iconCreateFunction :: "marker list \<Rightarrow> error + divIcon" where
  \<open>iconCreateFunction markers =
     (case countRed markers 0 of
        Inl e \<Rightarrow> Inl e
      | Inr redCount \<Rightarrow>
          let colorClass =
                (if (of_nat redCount :: rat) = of_nat (length markers) / 2
                 then asc ''marker-cluster-split''
                 else if (of_nat redCount :: rat) > of_nat (length markers) / 2
                 then asc ''marker-cluster-red''
                 else asc ''marker-cluster-blue'')
          in Inr \<lparr> className = asc ''marker-cluster '' @ colorClass,
                   html = asc ''<div><span>'' @ showNat (length markers)
                          @ asc ''</span></div>'',
                   iconSize = (40, 40),
                   iconAnchor = None,
                   popupAnchor = None \<rparr>)\<close>

section \<open>Notions used in the statements\<close>

text \<open>The values that have an \<open>includes\<close> method: strings and arrays.\<close>

definition hasIncludes :: "jsval \<Rightarrow> bool" where
  "hasIncludes v = (case v of Str s \<Rightarrow> True | Arr xs \<Rightarrow> True | _ \<Rightarrow> False)"

text \<open>A marker counts as dual when its colour option is truthy and includes \<open>red\<close>.\<close>

definition isDual :: "marker \<Rightarrow> bool" where
  "isDual m \<longleftrightarrow>
     truthy (optionsMarkerColor m) \<and>
     includes_js (optionsMarkerColor m) (asc ''red'') = Inr True"

text \<open>A field that \<open>includes\<close> can be called on once defaulted: falsy, a string or an array.\<close>

definition stringOrFalsy :: "jsval \<Rightarrow> bool" where
  "stringOrFalsy v \<longleftrightarrow> \<not> truthy v \<or> hasIncludes v"

text \<open>The icon lookup gave one of the two striped pins of the four that \<open>_initIcons\<close> makes.\<close>

definition stripedIcon :: "error + iconSlot option \<Rightarrow> bool" where
  "stripedIcon i \<longleftrightarrow>
     i = Inr (Some (Pin (createPinIcon (asc ''marker-blue-striped'')))) \<or>
     i = Inr (Some (Pin (createPinIcon (asc ''marker-red-striped''))))"

text \<open>
  The records of a payload that survive: those that normalize to an accepted store, in
  the order of the source; and the number of those that normalize to a rejection.
\<close>

definition survivors :: "('a \<Rightarrow> error + normalized) \<Rightarrow> 'a list \<Rightarrow> store list" where
  "survivors f xs =
     List.map_filter (\<lambda>x. case f x of Inr (Accepted s) \<Rightarrow> Some s | _ \<Rightarrow> None) xs"

definition rejectedCount :: "('a \<Rightarrow> error + normalized) \<Rightarrow> 'a list \<Rightarrow> nat" where
  "rejectedCount f xs = length (filter (\<lambda>x. f x = Inr Rejected) xs)"

text \<open>Whether the payload takes the columnar branch, as the source tests it.\<close>

definition columnar :: "jsval \<Rightarrow> bool" where
  "columnar rawData \<longleftrightarrow>
     truthy (field rawData (asc ''keys'')) \<and> isArray (field rawData (asc ''data''))"

text \<open>The source sequence of a payload and the normalization applied to each record.\<close>

definition sourceRecords :: "jsval \<Rightarrow> jsval list" where
  "sourceRecords rawData =
     (if columnar rawData then elements (field rawData (asc ''data''))
      else elements rawData)"

definition normalizeRecord ::
  "(jsnum \<Rightarrow> jsstring) \<Rightarrow> config \<Rightarrow> jsval \<Rightarrow> jsval \<Rightarrow> error + normalized"
where
  "normalizeRecord nts config rawData r =
     (if columnar rawData then expandRow nts config (field rawData (asc ''keys'')) r
      else normalizeStoreData (Element r) config)"

text \<open>
  The two shapes the specification accepts: an object with a \<open>keys\<close> sequence and a
  \<open>data\<close> sequence, or a bare array.
\<close>

definition acceptedShape :: "jsval \<Rightarrow> bool" where
  "acceptedShape rawData =
     (case rawData of
        Obj ps \<Rightarrow> isArray (lookupLast ps (asc ''keys'')) \<and> isArray (lookupLast ps (asc ''data''))
      | Arr xs \<Rightarrow> True
      | _ \<Rightarrow> False)"

text \<open>
  The flat object obtained by zipping \<open>keys\<close> with a row, as \<open>JSON.parse\<close> yields it from
  the text that pairs each key with the value at its position.
\<close>

definition zipObject :: "jsstring list \<Rightarrow> jsval list \<Rightarrow> jsval" where
  "zipObject keys row = Obj (zip keys row)"

text \<open>The store list of a posted message, or the error it carries.\<close>

definition storesOf :: "message \<Rightarrow> error + store list" where
  "storesOf m = (case m of SUCCESS stores lastUpdated \<Rightarrow> Inr stores | ERROR e \<Rightarrow> Inl e)"

text \<open>One pass over a string that writes each of the five characters as its entity.\<close>

definition escapeChar :: "16 word \<Rightarrow> jsstring" where
  \<open>escapeChar c =
     (if c = 0x26 then asc ''&amp;''
      else if c = 0x3C then asc ''&lt;''
      else if c = 0x3E then asc ''&gt;''
      else if c = 0x22 then asc ''&quot;''
      else if c = 0x27 then asc ''&#039;''
      else [c])\<close>

text \<open>A string in which every surrogate code unit is half of a pair.\<close>

fun noLoneSurrogate :: "jsstring \<Rightarrow> bool" where
  "noLoneSurrogate [] = True"
| "noLoneSurrogate [c] = (\<not> (0xD800 \<le> c \<and> c \<le> 0xDFFF))"
| "noLoneSurrogate (c # d # ds) =
     (if 0xD800 \<le> c \<and> c \<le> 0xDBFF then 0xDC00 \<le> d \<and> d \<le> 0xDFFF \<and> noLoneSurrogate ds
      else \<not> (0xDC00 \<le> c \<and> c \<le> 0xDFFF) \<and> noLoneSurrogate (d # ds))"

section \<open>Example data\<close>

text \<open>A marker with the given colour token, as \<open>renderMarkers\<close> makes them.\<close>

definition markerOf :: "string \<Rightarrow> marker" where
  "markerOf c =
     \<lparr> latlng = (Finite 25, Finite 121), icon = None,
       optionsMarkerColor = Str (asc c), popup = [] \<rparr>"

text \<open>A printer of numbers for the examples, none of which prints a number.\<close>

definition noNumbers :: "jsnum \<Rightarrow> jsstring" where
  "noNumbers n = []"

text \<open>
  The record of the specification's legacy scenario: \<open>last_updated\<close> 2024-02-02, name C,
  coordinates 25.0 and 121.0, a flavour text with the special-shape marker, colour \<open>red\<close>.
\<close>

definition recordC :: jsval where
  "recordC = Obj
     [(asc ''last_updated'', Str (asc ''2024-02-02'')),
      (asc ''NAME'', Str (asc ''C'')),
      (asc ''py'', Str (asc ''25.0'')),
      (asc ''px'', Str (asc ''121.0'')),
      (asc ''flavorType'',
         Str ([0x96D9, 0x53E3, 0x5473, 0x20, 0x7279, 0x6B8A, 0x9020, 0x578B]
              @ asc '' ('' @ [0x5713] @ asc '')'')),
      (asc ''markerColor'', Str (asc ''red''))]"

definition storeC :: store where
  "storeC =
     \<lparr> name = Str (asc ''C''), latitude = Finite 25, longitude = Finite 121,
       address = Str [], phone = Str [],
       flavorType = Str ([0x96D9, 0x53E3, 0x5473, 0x20, 0x7279, 0x6B8A, 0x9020, 0x578B]
                         @ asc '' ('' @ [0x5713] @ asc '')''),
       markerColor = Str (asc ''red''), isSpecialShape = True,
       displayColor = asc ''#e04e39'', isValid = True \<rparr>"

text \<open>A record with nothing but coordinates, and the store it normalizes to.\<close>

definition coordinatesOnly :: "string \<Rightarrow> string \<Rightarrow> jsval" where
  "coordinatesOnly py px = Obj [(asc ''py'', Str (asc py)), (asc ''px'', Str (asc px))]"

definition unnamedStore :: "jsnum \<Rightarrow> jsnum \<Rightarrow> store" where
  "unnamedStore lat lng =
     \<lparr> name = Str (asc ''Unknown Store''), latitude = lat, longitude = lng,
       address = Str [], phone = Str [], flavorType = Str [],
       markerColor = Str (asc ''blue''), isSpecialShape = False,
       displayColor = asc ''#2b82cb'', isValid = True \<rparr>"

definition okResponse :: "jsval \<Rightarrow> response" where
  "okResponse rawData = \<lparr> ok = True, statusText = asc ''OK'', json = Some rawData \<rparr>"

text \<open>
  A record whose flavour is a number, the same with a \<open>last_updated\<close> member, and a
  record whose colour token is \<open>toString\<close>.
\<close>

definition recordNumericFlavor :: jsval where
  "recordNumericFlavor = Obj
     [(asc ''py'', Str (asc ''25.0'')), (asc ''px'', Str (asc ''121.0'')),
      (asc ''flavorType'', Num (Finite 5))]"

definition recordDated :: jsval where
  "recordDated = Obj
     [(asc ''last_updated'', Str (asc ''2024-02-02'')),
      (asc ''py'', Str (asc ''25.0'')), (asc ''px'', Str (asc ''121.0'')),
      (asc ''flavorType'', Num (Finite 5))]"

definition recordToString :: jsval where
  "recordToString = Obj
     [(asc ''py'', Str (asc ''25.0'')), (asc ''px'', Str (asc ''121.0'')),
      (asc ''markerColor'', Str (asc ''toString''))]"

definition storeToString :: store where
  "storeToString =
     \<lparr> name = Str (asc ''Unknown Store''), latitude = Finite 25, longitude = Finite 121,
       address = Str [], phone = Str [], flavorType = Str [],
       markerColor = Str (asc ''toString''), isSpecialShape = False,
       displayColor = asc ''#2b82cb'', isValid = True \<rparr>"

text \<open>
  The columnar payload of the specification's first scenario: store A with valid
  coordinates, store B with \<open>py = "bad"\<close>, \<open>last_updated\<close> 2024-01-01.
\<close>

definition payloadAB :: jsval where
  "payloadAB = Obj
     [(asc ''keys'', Arr (map (\<lambda>k. Str (asc k))
                      [''NAME'', ''py'', ''px'', ''flavorType'', ''markerColor''])),
      (asc ''data'',
         Arr [Arr [Str (asc ''A''), Str (asc ''25.03''), Str (asc ''121.5''),
                   Str [0x55AE, 0x53E3, 0x5473], Str (asc ''blue'')],
              Arr [Str (asc ''B''), Str (asc ''bad''), Str (asc ''121.5''),
                   Str [0x96D9, 0x53E3, 0x5473], Str (asc ''red'')]]),
      (asc ''last_updated'', Str (asc ''2024-01-01''))]"

definition storeA :: store where
  "storeA =
     \<lparr> name = Str (asc ''A''), latitude = Finite (2503 / 100), longitude = Finite (243 / 2),
       address = Str [], phone = Str [], flavorType = Str [0x55AE, 0x53E3, 0x5473],
       markerColor = Str (asc ''blue''), isSpecialShape = False,
       displayColor = asc ''#2b82cb'', isValid = True \<rparr>"

text \<open>A payload whose \<open>keys\<close> is a string and whose \<open>data\<close> is empty.\<close>

definition payloadStringKeys :: jsval where
  "payloadStringKeys = Obj [(asc ''keys'', Str (asc ''abc'')), (asc ''data'', Arr [])]"

text \<open>
  A columnar payload with the single key \<open>__proto__\<close> and one row, holding an object with
  coordinates.
\<close>

definition protoKeys :: "jsstring list" where
  "protoKeys = [asc ''__proto__'']"

definition protoRows :: "jsval list list" where
  "protoRows = [[coordinatesOnly ''25.0'' ''121.0'']]"

definition columnarPayload :: "jsstring list \<Rightarrow> jsval list list \<Rightarrow> jsval" where
  "columnarPayload keys rows =
     Obj [(asc ''keys'', Arr (map Str keys)), (asc ''data'', Arr (map Arr rows))]"

definition legacyPayload :: "jsstring list \<Rightarrow> jsval list list \<Rightarrow> jsval" where
  "legacyPayload keys rows = Arr (map (zipObject keys) rows)"

text \<open>A record whose colour token contains \<open>red\<close> and is none of the four keys.\<close>

definition recordDarkRed :: jsval where
  "recordDarkRed = Obj
     [(asc ''py'', Str (asc ''25.0'')), (asc ''px'', Str (asc ''121.0'')),
      (asc ''markerColor'', Str (asc ''dark-red''))]"

definition storeDarkRed :: store where
  "storeDarkRed =
     \<lparr> name = Str (asc ''Unknown Store''), latitude = Finite 25, longitude = Finite 121,
       address = Str [], phone = Str [], flavorType = Str [],
       markerColor = Str (asc ''dark-red''), isSpecialShape = False,
       displayColor = asc ''#e04e39'', isValid = True \<rparr>"

text \<open>A store named \<open><script>\<close>.\<close>

definition scriptStore :: store where
  "scriptStore =
     \<lparr> name = Str (asc ''<script>''), latitude = Finite 25, longitude = Finite 121,
       address = Str [], phone = Str [], flavorType = Str [],
       markerColor = Str (asc ''blue''), isSpecialShape = False,
       displayColor = asc ''#2b82cb'', isValid = True \<rparr>"

text \<open>
  A record whose name is a high surrogate with no low surrogate after it, as
  \<open>JSON.parse\<close> yields it from the escape of \<open>U+D83D\<close> alone, and the store it
  normalizes to.
\<close>

definition recordLoneSurrogate :: jsval where
  "recordLoneSurrogate = Obj
     [(asc ''NAME'', Str [0xD83D]),
      (asc ''py'', Str (asc ''25.0'')), (asc ''px'', Str (asc ''121.0''))]"

definition storeLoneSurrogate :: store where
  "storeLoneSurrogate =
     \<lparr> name = Str [0xD83D], latitude = Finite 25, longitude = Finite 121,
       address = Str [], phone = Str [], flavorType = Str [],
       markerColor = Str (asc ''blue''), isSpecialShape = False,
       displayColor = asc ''#2b82cb'', isValid = True \<rparr>"

text \<open>
  A record whose name is an object with an own \<open>toString\<close> member, and the store it
  normalizes to.
\<close>

definition recordObjectName :: jsval where
  "recordObjectName = Obj
     [(asc ''NAME'', Obj [(asc ''toString'', Num (Finite 1))]),
      (asc ''py'', Str (asc ''25.0'')), (asc ''px'', Str (asc ''121.0''))]"

definition storeObjectName :: store where
  "storeObjectName =
     \<lparr> name = Obj [(asc ''toString'', Num (Finite 1))],
       latitude = Finite 25, longitude = Finite 121,
       address = Str [], phone = Str [], flavorType = Str [],
       markerColor = Str (asc ''blue''), isSpecialShape = False,
       displayColor = asc ''#2b82cb'', isValid = True \<rparr>"

section \<open>Cluster icons\<close>

lemma countRed_counts:
  "\<forall>m\<in>set ms. \<not> truthy (optionsMarkerColor m) \<or> hasIncludes (optionsMarkerColor m) \<Longrightarrow>
   countRed ms k = Inr (k + length (filter isDual ms))"
proof (induction ms arbitrary: k)
  case Nil
  then show ?case by simp
next
  case (Cons m ms)
  have h: "\<not> truthy (optionsMarkerColor m) \<or> hasIncludes (optionsMarkerColor m)"
    using Cons.prems by simp
  have t: "\<forall>m\<in>set ms. \<not> truthy (optionsMarkerColor m) \<or> hasIncludes (optionsMarkerColor m)"
    using Cons.prems by simp
  show ?case
  proof (cases "truthy (optionsMarkerColor m)")
    case False
    then show ?thesis using Cons.IH[OF t] by (simp add: isDual_def)
  next
    case True
    with h have "hasIncludes (optionsMarkerColor m)" by simp
    then obtain r where r: "includes_js (optionsMarkerColor m) (asc ''red'') = Inr r"
      by (cases "optionsMarkerColor m") (simp_all add: hasIncludes_def)
    show ?thesis using True r Cons.IH[OF t] by (simp add: isDual_def)
  qed
qed

lemma half_eq: "((of_nat r :: rat) = of_nat n / 2) \<longleftrightarrow> 2 * r = n"
proof -
  have "((of_nat r :: rat) = of_nat n / 2) \<longleftrightarrow> ((of_nat (2 * r) :: rat) = of_nat n)"
    by (simp add: field_simps)
  also have "\<dots> \<longleftrightarrow> 2 * r = n" by (simp only: of_nat_eq_iff)
  finally show ?thesis .
qed

lemma half_less: "((of_nat r :: rat) > of_nat n / 2) \<longleftrightarrow> 2 * r > n"
proof -
  have "((of_nat r :: rat) > of_nat n / 2) \<longleftrightarrow> ((of_nat (2 * r) :: rat) > of_nat n)"
    by (simp add: field_simps)
  also have "\<dots> \<longleftrightarrow> 2 * r > n" by (simp only: of_nat_less_iff)
  finally show ?thesis .
qed

text \<open>
  Claim C5. For every cluster whose markers carry a colour option that is falsy, a string
  or an array (every marker made from a normalized store does), the icon class is
  decided by the count of dual members: more than half gives \<open>marker-cluster-red\<close>, less
  than half \<open>marker-cluster-blue\<close>, exactly half \<open>marker-cluster-split\<close>, which is neither
  of the other two.
\<close>

theorem cluster_icon_majority:
  assumes "\<forall>m\<in>set markers.
             \<not> truthy (optionsMarkerColor m) \<or> hasIncludes (optionsMarkerColor m)"
  shows "(\<exists>d. iconCreateFunction markers = Inr d \<and>
            className d = asc ''marker-cluster '' @
              (if 2 * length (filter isDual markers) > length markers
                 then asc ''marker-cluster-red''
               else if 2 * length (filter isDual markers) < length markers
                 then asc ''marker-cluster-blue''
               else asc ''marker-cluster-split''))
         \<and> asc ''marker-cluster-split'' \<noteq> asc ''marker-cluster-red''
         \<and> asc ''marker-cluster-split'' \<noteq> asc ''marker-cluster-blue''"
proof -
  have "\<exists>d. iconCreateFunction markers = Inr d \<and>
           className d = asc ''marker-cluster '' @
             (if 2 * length (filter isDual markers) > length markers
                then asc ''marker-cluster-red''
              else if 2 * length (filter isDual markers) < length markers
                then asc ''marker-cluster-blue''
              else asc ''marker-cluster-split'')"
    using countRed_counts[OF assms, of 0]
    by (auto simp add: iconCreateFunction_def half_eq half_less Let_def)
  moreover have "asc ''marker-cluster-split'' \<noteq> asc ''marker-cluster-red''"
    by (simp add: asc_def)
  moreover have "asc ''marker-cluster-split'' \<noteq> asc ''marker-cluster-blue''"
    by (simp add: asc_def)
  ultimately show ?thesis by blast
qed

text \<open>A cluster of four markers, two of them dual, gets the split class.\<close>

theorem cluster_icon_majority_witness:
  "\<exists>d. iconCreateFunction [markerOf ''red'', markerOf ''blue'', markerOf ''red-striped'',
                            markerOf ''blue-striped''] = Inr d \<and>
        className d = asc ''marker-cluster marker-cluster-split''"
proof -
  have h: "\<forall>m\<in>set [markerOf ''red'', markerOf ''blue'', markerOf ''red-striped'',
                    markerOf ''blue-striped''].
      \<not> truthy (optionsMarkerColor m) \<or> hasIncludes (optionsMarkerColor m)"
    by (simp add: markerOf_def hasIncludes_def)
  have d: "length (filter isDual [markerOf ''red'', markerOf ''blue'',
             markerOf ''red-striped'', markerOf ''blue-striped'']) = 2"
    by (simp add: markerOf_def isDual_def asc_def sublist_Cons_right)
  show ?thesis
    using cluster_icon_majority[OF h] d by (simp add: asc_def)
qed

section \<open>Normalization\<close>

lemmas parse_defs = parseFloatStr_def isWhiteSpace_def strDecimalLiteral_def
  strUnsignedDecimalLiteral_def isDigit_def digitsVal_def exponentPart_def signedInteger_def
  scale10_def toDouble_def

lemmas normalize_eval = normalizeStoreData_def getField_def lookupLast_def hasCoordinates_def
  parseFloat_def isNaN_def orElse_def asc_def parse_defs specialShapeText_def CONFIG_def
  sublist_Cons_right Let_def

lemma includes_orElse_str:
  "stringOrFalsy v \<Longrightarrow> \<exists>b. includes_js (orElse v (Str d)) lit = Inr b"
  by (cases v) (auto simp add: stringOrFalsy_def hasIncludes_def orElse_def)

lemma includes_orElse_bad:
  "\<not> stringOrFalsy v \<Longrightarrow> includes_js (orElse v (Str d)) lit = Inl TypeError"
  by (cases v) (auto simp add: stringOrFalsy_def hasIncludes_def orElse_def)

lemma includes_errors: "includes_js v lit = Inl e \<Longrightarrow> e = TypeError"
  by (cases v) auto

lemma parseFloat_error: "parseFloat v = Inl e \<longleftrightarrow> e = TypeError \<and> cannotConvert v"
  by (auto simp add: parseFloat_def)

lemma parseFloat_result: "parseFloat v = Inr n \<longleftrightarrow> \<not> cannotConvert v \<and> n = numericPrefix v"
  by (auto simp add: parseFloat_def)

text \<open>The three outcomes of the coordinate test.\<close>

lemma hasCoordinates_valid:
  "hasCoordinates py px = Inr True \<longleftrightarrow>
     truthy py \<and> truthy px \<and>
     (\<exists>lat lng. parseFloat py = Inr lat \<and> lat \<noteq> NaN \<and> parseFloat px = Inr lng \<and> lng \<noteq> NaN)"
  by (auto simp add: hasCoordinates_def isNaN_def split: sum.splits)

lemma hasCoordinates_invalid:
  "hasCoordinates py px = Inr False \<longleftrightarrow>
     \<not> truthy py \<or> \<not> truthy px \<or> parseFloat py = Inr NaN \<or>
     ((\<exists>lat. parseFloat py = Inr lat) \<and> parseFloat px = Inr NaN)"
  by (auto simp add: hasCoordinates_def isNaN_def split: sum.splits)

lemma hasCoordinates_throws:
  "hasCoordinates py px = Inl e \<longleftrightarrow>
     e = TypeError \<and> truthy py \<and> truthy px \<and>
     (parseFloat py = Inl TypeError \<or>
      (\<exists>lat. parseFloat py = Inr lat \<and> lat \<noteq> NaN \<and> parseFloat px = Inl TypeError))"
  by (auto simp add: hasCoordinates_def isNaN_def parseFloat_def split: sum.splits if_splits)

lemma normalize_accepted:
  assumes "normalizeStoreData rawStore config = Inr (Accepted s)"
  obtains py lat lng special red where
    "readProp rawStore (asc ''py'') = Inr py"
    "hasCoordinates py (getField rawStore (asc ''px'')) = Inr True"
    "parseFloat py = Inr lat"
    "parseFloat (getField rawStore (asc ''px'')) = Inr lng"
    "includes_js (orElse (getField rawStore (asc ''flavorType'')) (Str [])) specialShapeText
       = Inr special"
    "includes_js (orElse (getField rawStore (asc ''markerColor''))
       (Str (MARKERS_DEFAULT config))) (asc ''red'') = Inr red"
    "s = \<lparr> name = orElse (getField rawStore (asc ''NAME'')) (Str (asc ''Unknown Store'')),
           latitude = lat,
           longitude = lng,
           address = orElse (getField rawStore (asc ''addr'')) (Str []),
           phone = orElse (getField rawStore (asc ''TEL'')) (Str []),
           flavorType = orElse (getField rawStore (asc ''flavorType'')) (Str []),
           markerColor = orElse (getField rawStore (asc ''markerColor''))
                           (Str (MARKERS_DEFAULT config)),
           isSpecialShape = special,
           displayColor = (if red then COLORS_RED config else COLORS_BLUE config),
           isValid = True \<rparr>"
proof (cases "readProp rawStore (asc ''py'')")
  case (Inl e)
  then show ?thesis using assms by (simp add: normalizeStoreData_def)
next
  case py: (Inr py)
  show ?thesis
  proof (cases "hasCoordinates py (getField rawStore (asc ''px''))")
    case (Inl e)
    then show ?thesis using assms py by (simp add: normalizeStoreData_def)
  next
    case hc: (Inr valid)
    have v: "valid" using assms py hc by (cases valid) (simp_all add: normalizeStoreData_def)
    have hc': "hasCoordinates py (getField rawStore (asc ''px'')) = Inr True"
      using hc v by simp
    show ?thesis
    proof (cases "includes_js (orElse (getField rawStore (asc ''flavorType'')) (Str []))
                    specialShapeText")
      case (Inl e)
      then show ?thesis using assms py hc v by (simp add: normalizeStoreData_def Let_def)
    next
      case sp: (Inr special)
      show ?thesis
      proof (cases "includes_js (orElse (getField rawStore (asc ''markerColor''))
                      (Str (MARKERS_DEFAULT config))) (asc ''red'')")
        case (Inl e)
        then show ?thesis using assms py hc v sp by (simp add: normalizeStoreData_def Let_def)
      next
        case rd: (Inr red)
        obtain lat lng where lat: "parseFloat py = Inr lat"
          and lng: "parseFloat (getField rawStore (asc ''px'')) = Inr lng"
          using hc' by (auto simp add: hasCoordinates_valid)
        have "s = \<lparr> name = orElse (getField rawStore (asc ''NAME'')) (Str (asc ''Unknown Store'')),
           latitude = lat,
           longitude = lng,
           address = orElse (getField rawStore (asc ''addr'')) (Str []),
           phone = orElse (getField rawStore (asc ''TEL'')) (Str []),
           flavorType = orElse (getField rawStore (asc ''flavorType'')) (Str []),
           markerColor = orElse (getField rawStore (asc ''markerColor''))
                           (Str (MARKERS_DEFAULT config)),
           isSpecialShape = special,
           displayColor = (if red then COLORS_RED config else COLORS_BLUE config),
           isValid = True \<rparr>"
          using assms py hc v sp rd lat lng by (simp add: normalizeStoreData_def Let_def)
        then show ?thesis using that py hc' sp rd lat lng by blast
      qed
    qed
  qed
qed

text \<open>What \<open>normalizeStoreData\<close> returns, by the outcome of the coordinate test.\<close>

lemma normalize_by_coordinates:
  assumes "readProp rawStore (asc ''py'') = Inr py"
  shows "(hasCoordinates py (getField rawStore (asc ''px'')) = Inl e
            \<longrightarrow> normalizeStoreData rawStore config = Inl e)
       \<and> (hasCoordinates py (getField rawStore (asc ''px'')) = Inr False
            \<longrightarrow> normalizeStoreData rawStore config = Inr Rejected)
       \<and> (hasCoordinates py (getField rawStore (asc ''px'')) = Inr True
            \<longrightarrow> normalizeStoreData rawStore config \<noteq> Inr Rejected
              \<and> (stringOrFalsy (getField rawStore (asc ''flavorType'')) \<and>
                  stringOrFalsy (getField rawStore (asc ''markerColor''))
                    \<longrightarrow> (\<exists>s. normalizeStoreData rawStore config = Inr (Accepted s)))
              \<and> (\<not> (stringOrFalsy (getField rawStore (asc ''flavorType'')) \<and>
                     stringOrFalsy (getField rawStore (asc ''markerColor'')))
                    \<longrightarrow> normalizeStoreData rawStore config = Inl TypeError))"
proof -
  let ?px = "getField rawStore (asc ''px'')"
  let ?fields = "stringOrFalsy (getField rawStore (asc ''flavorType'')) \<and>
                 stringOrFalsy (getField rawStore (asc ''markerColor''))"
  have a1: "hasCoordinates py ?px = Inl e \<longrightarrow> normalizeStoreData rawStore config = Inl e"
    using assms by (simp add: normalizeStoreData_def)
  have a2: "hasCoordinates py ?px = Inr False
              \<longrightarrow> normalizeStoreData rawStore config = Inr Rejected"
    using assms by (simp add: normalizeStoreData_def)
  have a3: "hasCoordinates py ?px = Inr True
            \<longrightarrow> normalizeStoreData rawStore config \<noteq> Inr Rejected
              \<and> (?fields \<longrightarrow> (\<exists>s. normalizeStoreData rawStore config = Inr (Accepted s)))
              \<and> (\<not> ?fields \<longrightarrow> normalizeStoreData rawStore config = Inl TypeError)"
  proof
    assume hc: "hasCoordinates py ?px = Inr True"
    obtain lat lng where lat: "parseFloat py = Inr lat" and lng: "parseFloat ?px = Inr lng"
      using hc by (auto simp add: hasCoordinates_valid)
    have b1: "normalizeStoreData rawStore config \<noteq> Inr Rejected"
      using assms hc lat lng by (simp add: normalizeStoreData_def Let_def split: sum.splits)
    have b2: "?fields \<longrightarrow> (\<exists>s. normalizeStoreData rawStore config = Inr (Accepted s))"
    proof
      assume f: ?fields
      obtain b where b: "includes_js (orElse (getField rawStore (asc ''flavorType'')) (Str []))
          specialShapeText = Inr b"
        using includes_orElse_str f by blast
      obtain r where r: "includes_js (orElse (getField rawStore (asc ''markerColor''))
          (Str (MARKERS_DEFAULT config))) (asc ''red'') = Inr r"
        using includes_orElse_str f by blast
      show "\<exists>s. normalizeStoreData rawStore config = Inr (Accepted s)"
        using assms hc lat lng b r by (simp add: normalizeStoreData_def Let_def)
    qed
    have b3: "\<not> ?fields \<longrightarrow> normalizeStoreData rawStore config = Inl TypeError"
    proof
      assume n: "\<not> ?fields"
      show "normalizeStoreData rawStore config = Inl TypeError"
      proof (cases "stringOrFalsy (getField rawStore (asc ''flavorType''))")
        case False
        then show ?thesis using assms hc includes_orElse_bad[OF False]
          by (simp add: normalizeStoreData_def Let_def)
      next
        case f: True
        then have c: "\<not> stringOrFalsy (getField rawStore (asc ''markerColor''))"
          using n by simp
        obtain b where b: "includes_js (orElse (getField rawStore (asc ''flavorType'')) (Str []))
            specialShapeText = Inr b"
          using includes_orElse_str[OF f] by blast
        show ?thesis using assms hc b includes_orElse_bad[OF c]
          by (simp add: normalizeStoreData_def Let_def)
      qed
    qed
    show "normalizeStoreData rawStore config \<noteq> Inr Rejected
              \<and> (?fields \<longrightarrow> (\<exists>s. normalizeStoreData rawStore config = Inr (Accepted s)))
              \<and> (\<not> ?fields \<longrightarrow> normalizeStoreData rawStore config = Inl TypeError)"
      using b1 b2 b3 by blast
  qed
  show ?thesis using a1 a2 a3 by blast
qed

text \<open>
  The colour of an accepted store has an \<open>includes\<close> method, and \<open>makeMarker\<close> hands it
  to the marker unchanged.
\<close>

lemma accepted_marker_color:
  assumes "normalizeStoreData rawStore config = Inr (Accepted s)"
      and "makeMarker nts config' icons s = Inr m"
  shows "hasIncludes (optionsMarkerColor m)"
proof -
  obtain red where "includes_js (markerColor s) (asc ''red'') = Inr red"
    using assms(1) by (rule normalize_accepted) simp
  then have "hasIncludes (markerColor s)"
    by (cases "markerColor s") (simp_all add: hasIncludes_def)
  moreover have "optionsMarkerColor m = markerColor s"
    using assms(2) by (auto simp add: makeMarker_def split: sum.splits)
  ultimately show ?thesis by simp
qed

lemma normalize_recordC: "normalizeStoreData (Element recordC) CONFIG = Inr (Accepted storeC)"
  by (simp add: recordC_def storeC_def normalize_eval)

lemma read_recordC:
  "readProp (Element recordC) (asc ''py'') = Inr (Str (asc ''25.0''))"
  "getField (Element recordC) (asc ''px'') = Str (asc ''121.0'')"
  "getField (Element recordC) (asc ''markerColor'') = Str (asc ''red'')"
  by (simp_all add: recordC_def getField_def lookupLast_def asc_def)

text \<open>
  Claim C1, as amended. For every raw record that is an object (its \<open>py\<close> can be read):
  \<open>normalizeStoreData\<close> rejects it exactly when \<open>py\<close> or \<open>px\<close> is falsy or parses to \<open>NaN\<close>
  (\<open>px\<close> being parsed only after \<open>py\<close> gave a number); the latitude and longitude of an
  accepted record are the numbers \<open>parseFloat\<close> gives and are not \<open>NaN\<close> (they may be
  infinite); a record with such coordinates is accepted whenever its \<open>flavorType\<close> and
  \<open>markerColor\<close> are falsy, strings or arrays; and a record with two truthy coordinates
  of which one cannot be converted to a string (an object with an own \<open>toString\<close>
  member, or an array holding one) is neither accepted nor rejected: the call throws a
  \<open>TypeError\<close>, unless \<open>py\<close> already parsed to \<open>NaN\<close>.
\<close>

theorem normalize_coordinates:
  assumes "readProp rawStore (asc ''py'') = Inr py"
  shows "(normalizeStoreData rawStore config = Inr Rejected \<longleftrightarrow>
            \<not> truthy py \<or> \<not> truthy (getField rawStore (asc ''px'')) \<or>
            parseFloat py = Inr NaN \<or>
            ((\<exists>lat. parseFloat py = Inr lat) \<and>
             parseFloat (getField rawStore (asc ''px'')) = Inr NaN))
       \<and> (\<forall>s. normalizeStoreData rawStore config = Inr (Accepted s) \<longrightarrow>
              parseFloat py = Inr (latitude s) \<and>
              parseFloat (getField rawStore (asc ''px'')) = Inr (longitude s) \<and>
              latitude s \<noteq> NaN \<and> longitude s \<noteq> NaN)
       \<and> (truthy py \<and> truthy (getField rawStore (asc ''px'')) \<and>
          (\<exists>lat lng. parseFloat py = Inr lat \<and> lat \<noteq> NaN \<and>
             parseFloat (getField rawStore (asc ''px'')) = Inr lng \<and> lng \<noteq> NaN) \<and>
          stringOrFalsy (getField rawStore (asc ''flavorType'')) \<and>
          stringOrFalsy (getField rawStore (asc ''markerColor''))
          \<longrightarrow> (\<exists>s. normalizeStoreData rawStore config = Inr (Accepted s)))
       \<and> (truthy py \<and> truthy (getField rawStore (asc ''px'')) \<and>
          (parseFloat py = Inl TypeError \<or>
           (\<exists>lat. parseFloat py = Inr lat \<and> lat \<noteq> NaN \<and>
              parseFloat (getField rawStore (asc ''px'')) = Inl TypeError))
          \<longrightarrow> normalizeStoreData rawStore config = Inl TypeError)
       \<and> (parseFloat py = Inl TypeError \<longleftrightarrow> cannotConvert py)
       \<and> (parseFloat (getField rawStore (asc ''px'')) = Inl TypeError
            \<longleftrightarrow> cannotConvert (getField rawStore (asc ''px'')))"
proof -
  let ?px = "getField rawStore (asc ''px'')"
  note n = normalize_by_coordinates[OF assms, of _ config]
  have rej: "normalizeStoreData rawStore config = Inr Rejected \<longleftrightarrow>
               hasCoordinates py ?px = Inr False"
  proof (cases "hasCoordinates py ?px")
    case (Inl e)
    then show ?thesis using n[of e] by simp
  next
    case (Inr valid)
    then show ?thesis using n[of TypeError] by (cases valid) simp_all
  qed
  have c1: "normalizeStoreData rawStore config = Inr Rejected \<longleftrightarrow>
            \<not> truthy py \<or> \<not> truthy ?px \<or> parseFloat py = Inr NaN \<or>
            ((\<exists>lat. parseFloat py = Inr lat) \<and> parseFloat ?px = Inr NaN)"
    unfolding rej by (rule hasCoordinates_invalid)
  have c2: "\<forall>s. normalizeStoreData rawStore config = Inr (Accepted s) \<longrightarrow>
              parseFloat py = Inr (latitude s) \<and> parseFloat ?px = Inr (longitude s) \<and>
              latitude s \<noteq> NaN \<and> longitude s \<noteq> NaN"
  proof (intro allI impI)
    fix s assume a: "normalizeStoreData rawStore config = Inr (Accepted s)"
    obtain py' lat lng where py': "readProp rawStore (asc ''py'') = Inr py'"
      and hc: "hasCoordinates py' ?px = Inr True"
      and lat: "parseFloat py' = Inr lat" and lng: "parseFloat ?px = Inr lng"
      and la: "latitude s = lat" and lo: "longitude s = lng"
      using a by (rule normalize_accepted) simp
    have e: "py' = py" using py' assms by simp
    show "parseFloat py = Inr (latitude s) \<and> parseFloat ?px = Inr (longitude s) \<and>
              latitude s \<noteq> NaN \<and> longitude s \<noteq> NaN"
      using hc lat lng la lo unfolding e by (auto simp add: hasCoordinates_valid)
  qed
  have c3: "truthy py \<and> truthy ?px \<and>
          (\<exists>lat lng. parseFloat py = Inr lat \<and> lat \<noteq> NaN \<and>
             parseFloat ?px = Inr lng \<and> lng \<noteq> NaN) \<and>
          stringOrFalsy (getField rawStore (asc ''flavorType'')) \<and>
          stringOrFalsy (getField rawStore (asc ''markerColor''))
          \<longrightarrow> (\<exists>s. normalizeStoreData rawStore config = Inr (Accepted s))"
    using n[of TypeError] by (simp only: hasCoordinates_valid) blast
  have c4: "truthy py \<and> truthy ?px \<and>
          (parseFloat py = Inl TypeError \<or>
           (\<exists>lat. parseFloat py = Inr lat \<and> lat \<noteq> NaN \<and> parseFloat ?px = Inl TypeError))
          \<longrightarrow> normalizeStoreData rawStore config = Inl TypeError"
    using n[of TypeError] hasCoordinates_throws[of py ?px TypeError] by blast
  have c5: "parseFloat py = Inl TypeError \<longleftrightarrow> cannotConvert py"
    by (simp add: parseFloat_error)
  have c6: "parseFloat ?px = Inl TypeError \<longleftrightarrow> cannotConvert ?px"
    by (simp add: parseFloat_error)
  show ?thesis using c1 c2 c3 c4 c5 c6 by blast
qed

theorem normalize_coordinates_witness:
  "normalizeStoreData (Element recordC) CONFIG = Inr (Accepted storeC) \<and>
   parseFloat (Str (asc ''25.0'')) = Inr (latitude storeC) \<and>
   parseFloat (Str (asc ''121.0'')) = Inr (longitude storeC) \<and>
   latitude storeC \<noteq> NaN \<and> longitude storeC \<noteq> NaN"
  using normalize_coordinates[OF read_recordC(1), of CONFIG] normalize_recordC read_recordC(2)
  by simp

text \<open>
  The claim as stated fails: \<open>py = "Infinity"\<close> parses to a number that is not finite,
  and the record is accepted with that latitude.
\<close>

theorem normalize_infinity_counterexample:
  "normalizeStoreData (Element (coordinatesOnly ''Infinity'' ''121.0'')) CONFIG
     = Inr (Accepted (unnamedStore PosInf (Finite 121))) \<and>
   latitude (unnamedStore PosInf (Finite 121)) = PosInf"
  by (simp add: coordinatesOnly_def unnamedStore_def normalize_eval)

text \<open>
  Claim C7, as amended. For every raw record that is an object, \<open>normalizeStoreData\<close>
  throws exactly when \<open>py\<close> and \<open>px\<close> are truthy and either the conversion of \<open>py\<close> to a
  string throws, or \<open>py\<close> parses to a number and the conversion of \<open>px\<close> throws, or both
  parse to numbers and \<open>flavorType\<close> or \<open>markerColor\<close> is a truthy value without an
  \<open>includes\<close> method (a number, \<open>true\<close> or an object); what it throws is a \<open>TypeError\<close>.
  A conversion throws on an object with an own \<open>toString\<close> member and on an array
  holding one. In every other case it returns a normalized record or a rejection: in
  particular whenever a coordinate is falsy or \<open>py\<close> parses to \<open>NaN\<close>, and whenever both
  coordinates can be converted and the two fields are falsy, strings or arrays.
  Being a function of its arguments, it gives equal results on equal inputs.
\<close>

theorem normalize_throws:
  assumes "readProp rawStore (asc ''py'') = Inr py"
  shows "(normalizeStoreData rawStore config = Inl TypeError \<longleftrightarrow>
            truthy py \<and> truthy (getField rawStore (asc ''px'')) \<and>
            (parseFloat py = Inl TypeError \<or>
             (\<exists>lat. parseFloat py = Inr lat \<and> lat \<noteq> NaN \<and>
                parseFloat (getField rawStore (asc ''px'')) = Inl TypeError) \<or>
             (\<exists>lat lng. parseFloat py = Inr lat \<and> lat \<noteq> NaN \<and>
                parseFloat (getField rawStore (asc ''px'')) = Inr lng \<and> lng \<noteq> NaN \<and>
                \<not> (stringOrFalsy (getField rawStore (asc ''flavorType'')) \<and>
                   stringOrFalsy (getField rawStore (asc ''markerColor''))))))
       \<and> (\<forall>e. normalizeStoreData rawStore config = Inl e \<longrightarrow> e = TypeError)
       \<and> (\<forall>v. parseFloat v = Inl TypeError \<longleftrightarrow> cannotConvert v)
       \<and> (\<not> truthy py \<or> \<not> truthy (getField rawStore (asc ''px'')) \<or> parseFloat py = Inr NaN
          \<longrightarrow> normalizeStoreData rawStore config = Inr Rejected)
       \<and> (\<not> cannotConvert py \<and> \<not> cannotConvert (getField rawStore (asc ''px'')) \<and>
          stringOrFalsy (getField rawStore (asc ''flavorType'')) \<and>
          stringOrFalsy (getField rawStore (asc ''markerColor''))
          \<longrightarrow> (\<exists>r. normalizeStoreData rawStore config = Inr r))"
proof -
  let ?px = "getField rawStore (asc ''px'')"
  let ?fields = "stringOrFalsy (getField rawStore (asc ''flavorType'')) \<and>
                 stringOrFalsy (getField rawStore (asc ''markerColor''))"
  note n = normalize_by_coordinates[OF assms, of _ config]
  have c1: "normalizeStoreData rawStore config = Inl TypeError \<longleftrightarrow>
            truthy py \<and> truthy ?px \<and>
            (parseFloat py = Inl TypeError \<or>
             (\<exists>lat. parseFloat py = Inr lat \<and> lat \<noteq> NaN \<and> parseFloat ?px = Inl TypeError) \<or>
             (\<exists>lat lng. parseFloat py = Inr lat \<and> lat \<noteq> NaN \<and>
                parseFloat ?px = Inr lng \<and> lng \<noteq> NaN \<and> \<not> ?fields))"
  proof (cases "hasCoordinates py ?px")
    case (Inl e)
    then have e: "e = TypeError" by (simp add: hasCoordinates_throws)
    have t: "normalizeStoreData rawStore config = Inl TypeError" using n[of e] Inl e by simp
    have "truthy py \<and> truthy ?px \<and>
            (parseFloat py = Inl TypeError \<or>
             (\<exists>lat. parseFloat py = Inr lat \<and> lat \<noteq> NaN \<and> parseFloat ?px = Inl TypeError))"
      using Inl by (simp add: hasCoordinates_throws)
    then show ?thesis using t by blast
  next
    case (Inr valid)
    show ?thesis
    proof (cases valid)
      case False
      then have r: "normalizeStoreData rawStore config = Inr Rejected"
        using n[of TypeError] Inr by simp
      have i: "\<not> truthy py \<or> \<not> truthy ?px \<or> parseFloat py = Inr NaN \<or>
               ((\<exists>lat. parseFloat py = Inr lat) \<and> parseFloat ?px = Inr NaN)"
        using Inr False by (simp add: hasCoordinates_invalid)
      show ?thesis unfolding r using i by auto
    next
      case True
      then have v: "hasCoordinates py ?px = Inr True" using Inr by simp
      have p: "truthy py \<and> truthy ?px \<and>
           (\<exists>lat lng. parseFloat py = Inr lat \<and> lat \<noteq> NaN \<and>
              parseFloat ?px = Inr lng \<and> lng \<noteq> NaN)"
        using v by (simp only: hasCoordinates_valid)
      show ?thesis
      proof (cases ?fields)
        case f: True
        then obtain s where "normalizeStoreData rawStore config = Inr (Accepted s)"
          using n[of TypeError] v by blast
        then show ?thesis using f p by auto
      next
        case f: False
        then have "normalizeStoreData rawStore config = Inl TypeError"
          using n[of TypeError] v by blast
        then show ?thesis using f p by auto
      qed
    qed
  qed
  have c2: "\<forall>e. normalizeStoreData rawStore config = Inl e \<longrightarrow> e = TypeError"
  proof (intro allI impI)
    fix e assume a: "normalizeStoreData rawStore config = Inl e"
    show "e = TypeError"
    proof (cases "hasCoordinates py ?px")
      case (Inl e')
      then show ?thesis using n[of e'] a by (simp add: hasCoordinates_throws)
    next
      case (Inr valid)
      show ?thesis
      proof (cases valid)
        case False
        then show ?thesis using n[of TypeError] Inr a by simp
      next
        case True
        then show ?thesis using n[of TypeError] Inr a by (cases ?fields) auto
      qed
    qed
  qed
  have c3: "\<forall>v. parseFloat v = Inl TypeError \<longleftrightarrow> cannotConvert v"
    by (simp add: parseFloat_error)
  have c4: "\<not> truthy py \<or> \<not> truthy ?px \<or> parseFloat py = Inr NaN
          \<longrightarrow> normalizeStoreData rawStore config = Inr Rejected"
    using n[of TypeError] hasCoordinates_invalid[of py ?px] by blast
  have c5: "\<not> cannotConvert py \<and> \<not> cannotConvert ?px \<and> ?fields
          \<longrightarrow> (\<exists>r. normalizeStoreData rawStore config = Inr r)"
  proof
    assume h: "\<not> cannotConvert py \<and> \<not> cannotConvert ?px \<and> ?fields"
    show "\<exists>r. normalizeStoreData rawStore config = Inr r"
    proof (cases "hasCoordinates py ?px")
      case (Inl e)
      then show ?thesis using h by (simp add: hasCoordinates_throws parseFloat_error)
    next
      case (Inr valid)
      then show ?thesis using n[of TypeError] h by (cases valid) auto
    qed
  qed
  show ?thesis using c1 c2 c3 c4 c5 by blast
qed

theorem normalize_throws_witness:
  "normalizeStoreData (Element recordC) CONFIG \<noteq> Inl TypeError \<and>
   (\<exists>r. normalizeStoreData (Element recordC) CONFIG = Inr r)"
  using normalize_throws[OF read_recordC(1), of CONFIG] normalize_recordC
  by simp

text \<open>The claim as stated fails: a record whose \<open>flavorType\<close> is the number 5 makes it throw.\<close>

theorem normalize_throws_counterexample:
  "normalizeStoreData (Element recordNumericFlavor) CONFIG = Inl TypeError"
  by (simp add: recordNumericFlavor_def normalize_eval)

text \<open>
  So does a record whose \<open>py\<close> is an object with an own \<open>toString\<close> member, and one whose
  \<open>py\<close> is an array holding such an object.
\<close>

lemma normalize_unconvertible:
  "normalizeStoreData (Element (Obj [(asc ''py'', Obj [(asc ''toString'', Num (Finite 1))]),
                                     (asc ''px'', Str (asc ''1''))])) CONFIG = Inl TypeError"
  "normalizeStoreData
     (Element (Obj [(asc ''py'', Arr [Num (Finite 1), Obj [(asc ''toString'', Num (Finite 1))]]),
                    (asc ''px'', Str (asc ''1''))])) CONFIG = Inl TypeError"
  by (simp_all add: normalize_eval)

section \<open>Classification and icons\<close>

lemma iconFor_cases:
  assumes "ToString nts (markerColor s) = Inr k"
  shows "iconFor nts CONFIG (initIcons CONFIG) s =
     Inr (if k = asc ''red-striped''
            then Some (Pin (createPinIcon (asc ''marker-red-striped'')))
          else if k = asc ''blue-striped''
            then Some (Pin (createPinIcon (asc ''marker-blue-striped'')))
          else if k = asc ''red''
            then Some (Pin (createPinIcon (asc ''marker-red'')))
          else if k = asc ''blue''
            then Some (Pin (createPinIcon (asc ''marker-blue'')))
          else if k \<in> set objectPrototypeNames
            then Some (Inherited k)
          else Some (Pin (createPinIcon (asc ''marker-blue''))))"
  using assms
  by (simp add: iconFor_def lookupIcon_def initIcons_def CONFIG_def objectPrototypeNames_def asc_def)

lemma iconFor_error:
  "ToString nts (markerColor s) = Inl e \<Longrightarrow> iconFor nts config icons s = Inl e"
  by (simp add: iconFor_def)

lemma pins_distinct:
  "createPinIcon (asc ''marker-red'') \<noteq> createPinIcon (asc ''marker-red-striped'')"
  "createPinIcon (asc ''marker-red'') \<noteq> createPinIcon (asc ''marker-blue-striped'')"
  "createPinIcon (asc ''marker-blue'') \<noteq> createPinIcon (asc ''marker-red-striped'')"
  "createPinIcon (asc ''marker-blue'') \<noteq> createPinIcon (asc ''marker-blue-striped'')"
  by (simp_all add: createPinIcon_def asc_def)

lemma striped_iff:
  "stripedIcon (iconFor nts CONFIG (initIcons CONFIG) s) \<longleftrightarrow>
     ToString nts (markerColor s) = Inr (asc ''blue-striped'') \<or>
     ToString nts (markerColor s) = Inr (asc ''red-striped'')"
proof (cases "ToString nts (markerColor s)")
  case (Inl e)
  then show ?thesis using iconFor_error[OF Inl] by (simp add: stripedIcon_def)
next
  case (Inr k)
  show ?thesis unfolding iconFor_cases[OF Inr] Inr stripedIcon_def using pins_distinct by auto
qed

text \<open>
  Claim C2, as amended. For every accepted record: the display colour is the red one
  exactly when the colour token (\<open>blue\<close> when \<open>markerColor\<close> is falsy) includes \<open>red\<close>, for
  a string token exactly when it contains the substring; \<open>isSpecialShape\<close> holds exactly
  when \<open>flavorType\<close> includes the special-shape text; and the icon is looked up by the
  colour token alone, so each of the four keys gives its pin and the icon is a striped
  one exactly when the token is one of the two striped keys, whatever \<open>isSpecialShape\<close>.
\<close>

theorem classification_and_icon:
  assumes "normalizeStoreData rawStore CONFIG = Inr (Accepted s)"
  shows "markerColor s = orElse (getField rawStore (asc ''markerColor'')) (Str (asc ''blue''))
       \<and> (displayColor s = asc ''#e04e39'' \<longleftrightarrow>
            includes_js (markerColor s) (asc ''red'') = Inr True)
       \<and> (displayColor s = asc ''#2b82cb'' \<longleftrightarrow>
            includes_js (markerColor s) (asc ''red'') = Inr False)
       \<and> (\<forall>t. getField rawStore (asc ''markerColor'') = Str t \<longrightarrow>
              (displayColor s = asc ''#e04e39'' \<longleftrightarrow> sublist (asc ''red'') t))
       \<and> (\<not> truthy (getField rawStore (asc ''markerColor'')) \<longrightarrow>
              displayColor s = asc ''#2b82cb'')
       \<and> flavorType s = orElse (getField rawStore (asc ''flavorType'')) (Str [])
       \<and> (isSpecialShape s \<longleftrightarrow> includes_js (flavorType s) specialShapeText = Inr True)
       \<and> (\<forall>f. getField rawStore (asc ''flavorType'') = Str f \<longrightarrow>
              (isSpecialShape s \<longleftrightarrow> sublist specialShapeText f))
       \<and> (\<forall>k \<in> set [''blue'', ''red'', ''blue-striped'', ''red-striped''].
              ToString nts (markerColor s) = Inr (asc k) \<longrightarrow>
              iconFor nts CONFIG (initIcons CONFIG) s
                = Inr (Some (Pin (createPinIcon (asc ''marker-'' @ asc k)))))
       \<and> (stripedIcon (iconFor nts CONFIG (initIcons CONFIG) s) \<longleftrightarrow>
            ToString nts (markerColor s) = Inr (asc ''blue-striped'') \<or>
            ToString nts (markerColor s) = Inr (asc ''red-striped''))"
proof -
  let ?flavor = "orElse (getField rawStore (asc ''flavorType'')) (Str [])"
  let ?color = "orElse (getField rawStore (asc ''markerColor'')) (Str (asc ''blue''))"
  have dflt: "MARKERS_DEFAULT CONFIG = asc ''blue''" by (simp add: CONFIG_def)
  have cr: "COLORS_RED CONFIG = asc ''#e04e39''" by (simp add: CONFIG_def)
  have cb: "COLORS_BLUE CONFIG = asc ''#2b82cb''" by (simp add: CONFIG_def)
  obtain py lat lng special red where
    sp0: "includes_js (orElse (getField rawStore (asc ''flavorType'')) (Str []))
            specialShapeText = Inr special" and
    rd0: "includes_js (orElse (getField rawStore (asc ''markerColor''))
            (Str (MARKERS_DEFAULT CONFIG))) (asc ''red'') = Inr red" and
    s: "s = \<lparr> name = orElse (getField rawStore (asc ''NAME'')) (Str (asc ''Unknown Store'')),
           latitude = lat,
           longitude = lng,
           address = orElse (getField rawStore (asc ''addr'')) (Str []),
           phone = orElse (getField rawStore (asc ''TEL'')) (Str []),
           flavorType = orElse (getField rawStore (asc ''flavorType'')) (Str []),
           markerColor = orElse (getField rawStore (asc ''markerColor''))
                           (Str (MARKERS_DEFAULT CONFIG)),
           isSpecialShape = special,
           displayColor = (if red then COLORS_RED CONFIG else COLORS_BLUE CONFIG),
           isValid = True \<rparr>"
    using assms by (rule normalize_accepted)
  have sp: "includes_js ?flavor specialShapeText = Inr special" using sp0 .
  have rd: "includes_js ?color (asc ''red'') = Inr red" using rd0 by (simp only: dflt)
  have fl: "flavorType s = ?flavor" by (simp add: s)
  have mc: "markerColor s = ?color" by (simp add: s dflt)
  have ss: "isSpecialShape s = special" by (simp add: s)
  have dc: "displayColor s = (if red then asc ''#e04e39'' else asc ''#2b82cb'')"
    by (simp add: s cr cb)
  have ne: "asc ''#e04e39'' \<noteq> asc ''#2b82cb''" by (simp add: asc_def)
  have noRedInBlue: "\<not> sublist (asc ''red'') (asc ''blue'')"
    by (simp add: asc_def sublist_Cons_right)
  have a2: "displayColor s = asc ''#e04e39'' \<longleftrightarrow>
            includes_js (markerColor s) (asc ''red'') = Inr True"
    using rd dc ne mc by (cases red) simp_all
  have a3: "displayColor s = asc ''#2b82cb'' \<longleftrightarrow>
            includes_js (markerColor s) (asc ''red'') = Inr False"
    using rd dc ne mc by (cases red) simp_all
  have c1: "\<forall>t. getField rawStore (asc ''markerColor'') = Str t \<longrightarrow>
              (displayColor s = asc ''#e04e39'' \<longleftrightarrow> sublist (asc ''red'') t)"
  proof (intro allI impI)
    fix t assume t: "getField rawStore (asc ''markerColor'') = Str t"
    show "displayColor s = asc ''#e04e39'' \<longleftrightarrow> sublist (asc ''red'') t"
    proof (cases "t = []")
      case True
      then have "markerColor s = Str (asc ''blue'')" using mc t by (simp add: orElse_def)
      moreover have "\<not> sublist (asc ''red'') t" using True by (simp add: asc_def)
      ultimately show ?thesis using a2 noRedInBlue by simp
    next
      case False
      then have "markerColor s = Str t" using mc t by (simp add: orElse_def)
      then show ?thesis using a2 by simp
    qed
  qed
  have c2: "\<not> truthy (getField rawStore (asc ''markerColor'')) \<longrightarrow>
              displayColor s = asc ''#2b82cb''"
  proof
    assume "\<not> truthy (getField rawStore (asc ''markerColor''))"
    then have "markerColor s = Str (asc ''blue'')" using mc by (simp add: orElse_def)
    then show "displayColor s = asc ''#2b82cb''" using a3 noRedInBlue by simp
  qed
  have f2: "isSpecialShape s \<longleftrightarrow> includes_js (flavorType s) specialShapeText = Inr True"
    using sp ss fl by simp
  have f1: "\<forall>f. getField rawStore (asc ''flavorType'') = Str f \<longrightarrow>
              (isSpecialShape s \<longleftrightarrow> sublist specialShapeText f)"
  proof (intro allI impI)
    fix f assume f: "getField rawStore (asc ''flavorType'') = Str f"
    show "isSpecialShape s \<longleftrightarrow> sublist specialShapeText f"
    proof (cases "f = []")
      case True
      then have "flavorType s = Str []" using fl f by (simp add: orElse_def)
      then show ?thesis using f2 True by simp
    next
      case False
      then have "flavorType s = Str f" using fl f by (simp add: orElse_def)
      then show ?thesis using f2 by simp
    qed
  qed
  have i1: "\<forall>k \<in> set [''blue'', ''red'', ''blue-striped'', ''red-striped''].
              ToString nts (markerColor s) = Inr (asc k) \<longrightarrow>
              iconFor nts CONFIG (initIcons CONFIG) s
                = Inr (Some (Pin (createPinIcon (asc ''marker-'' @ asc k))))"
  proof (intro ballI impI)
    fix k assume k: "k \<in> set [''blue'', ''red'', ''blue-striped'', ''red-striped'']"
      and t: "ToString nts (markerColor s) = Inr (asc k)"
    show "iconFor nts CONFIG (initIcons CONFIG) s
            = Inr (Some (Pin (createPinIcon (asc ''marker-'' @ asc k))))"
      unfolding iconFor_cases[OF t] using k by (auto simp add: asc_def)
  qed
  show ?thesis
    using mc a2 a3 c1 c2 fl f2 f1 i1 striped_iff[of nts s] by blast
qed

theorem classification_and_icon_witness:
  "displayColor storeC = asc ''#e04e39'' \<and> isSpecialShape storeC \<and>
   iconFor noNumbers CONFIG (initIcons CONFIG) storeC
     = Inr (Some (Pin (createPinIcon (asc ''marker-'' @ asc ''red''))))"
proof -
  have t: "ToString noNumbers (markerColor storeC) = Inr (asc ''red'')"
    by (simp add: storeC_def ToString_def)
  have f: "includes_js (flavorType storeC) specialShapeText = Inr True"
    by (simp add: storeC_def specialShapeText_def asc_def sublist_Cons_right)
  have r: "sublist (asc ''red'') (asc ''red'')" by simp
  show ?thesis
    using classification_and_icon[OF normalize_recordC, of noNumbers] t f r read_recordC(3)
    by simp
qed

text \<open>
  The claim as stated fails: the record of the specification's own legacy scenario is
  special-shaped, and it is rendered with the plain red pin.
\<close>

theorem special_shape_plain_icon_counterexample:
  "normalizeStoreData (Element recordC) CONFIG = Inr (Accepted storeC) \<and>
   isSpecialShape storeC \<and>
   iconFor noNumbers CONFIG (initIcons CONFIG) storeC
     = Inr (Some (Pin (createPinIcon (asc ''marker-red'')))) \<and>
   \<not> stripedIcon (iconFor noNumbers CONFIG (initIcons CONFIG) storeC)"
proof -
  have t: "ToString noNumbers (markerColor storeC) = Inr (asc ''red'')"
    by (simp add: storeC_def ToString_def)
  have i: "iconFor noNumbers CONFIG (initIcons CONFIG) storeC
             = Inr (Some (Pin (createPinIcon (asc ''marker-red''))))"
    unfolding iconFor_cases[OF t] by (simp add: asc_def)
  have s: "\<not> stripedIcon (Inr (Some (Pin (createPinIcon (asc ''marker-red'')))))"
    by (simp add: stripedIcon_def createPinIcon_def asc_def)
  have sp: "isSpecialShape storeC" by (simp add: storeC_def)
  show ?thesis using normalize_recordC i s sp by simp
qed

text \<open>
  A token that is none of the four keys and no name of \<open>Object.prototype\<close> gets the
  default blue pin.
\<close>

lemma icon_fallback:
  assumes "ToString nts (markerColor s) = Inr k"
      and "k \<notin> set (map asc [''blue'', ''red'', ''blue-striped'', ''red-striped''])"
      and "k \<notin> set objectPrototypeNames"
  shows "iconFor nts CONFIG (initIcons CONFIG) s
           = Inr (Some (Pin (createPinIcon (asc ''marker-blue''))))"
  unfolding iconFor_cases[OF assms(1)] using assms(2,3) by simp

text \<open>The token \<open>dark-red\<close>: the red display colour, and the default blue pin.\<close>

lemma dark_red_blue_pin:
  "normalizeStoreData (Element recordDarkRed) CONFIG = Inr (Accepted storeDarkRed) \<and>
   displayColor storeDarkRed = COLORS_RED CONFIG \<and>
   iconFor noNumbers CONFIG (initIcons CONFIG) storeDarkRed
     = Inr (Some (Pin (createPinIcon (asc ''marker-blue''))))"
proof -
  have t: "ToString noNumbers (markerColor storeDarkRed) = Inr (asc ''dark-red'')"
    by (simp add: storeDarkRed_def ToString_def)
  have n: "normalizeStoreData (Element recordDarkRed) CONFIG = Inr (Accepted storeDarkRed)"
    by (simp add: recordDarkRed_def storeDarkRed_def normalize_eval)
  have i: "iconFor noNumbers CONFIG (initIcons CONFIG) storeDarkRed
             = Inr (Some (Pin (createPinIcon (asc ''marker-blue''))))"
    unfolding iconFor_cases[OF t] by (simp add: objectPrototypeNames_def asc_def)
  show ?thesis using n i by (simp add: storeDarkRed_def CONFIG_def)
qed

text \<open>
  Claim C10 fails on the code: the token \<open>toString\<close> is none of the four keys, the read
  \<open>this.icons['toString']\<close> finds the method every object inherits, and the marker gets
  that function as its icon instead of the default blue pin.
\<close>

theorem inherited_name_no_fallback:
  "normalizeStoreData (Element recordToString) CONFIG = Inr (Accepted storeToString) \<and>
   iconFor noNumbers CONFIG (initIcons CONFIG) storeToString
     = Inr (Some (Inherited (asc ''toString''))) \<and>
   iconFor noNumbers CONFIG (initIcons CONFIG) storeToString
     \<noteq> Inr (Some (Pin (createPinIcon (asc ''marker-blue''))))"
proof -
  have t: "ToString noNumbers (markerColor storeToString) = Inr (asc ''toString'')"
    by (simp add: storeToString_def ToString_def)
  have n: "normalizeStoreData (Element recordToString) CONFIG = Inr (Accepted storeToString)"
    by (simp add: recordToString_def storeToString_def normalize_eval)
  have i: "iconFor noNumbers CONFIG (initIcons CONFIG) storeToString
             = Inr (Some (Inherited (asc ''toString'')))"
    unfolding iconFor_cases[OF t] by (simp add: objectPrototypeNames_def asc_def)
  show ?thesis using n i by simp
qed

section \<open>Ingestion\<close>

lemma mapE_all2: "mapE f xs = Inr ys \<longleftrightarrow> list_all2 (\<lambda>x y. f x = Inr y) xs ys"
proof (induction xs arbitrary: ys)
  case Nil
  then show ?case by auto
next
  case (Cons x xs)
  show ?case
  proof (cases "f x")
    case (Inl e)
    then show ?thesis by (simp add: list_all2_Cons1)
  next
    case fx: (Inr y)
    show ?thesis
    proof (cases "mapE f xs")
      case (Inl e)
      then have "\<And>zs. \<not> list_all2 (\<lambda>x y. f x = Inr y) xs zs"
        using Cons.IH by (metis sum.distinct(1))
      then show ?thesis using fx Inl by (simp add: list_all2_Cons1)
    next
      case (Inr zs)
      then have "\<And>ws. list_all2 (\<lambda>x y. f x = Inr y) xs ws \<longleftrightarrow> ws = zs"
        using Cons.IH by (metis sum.inject(2))
      then show ?thesis using fx Inr by (auto simp add: list_all2_Cons1)
    qed
  qed
qed

lemma mapE_error: "mapE f xs = Inl e \<Longrightarrow> \<exists>x\<in>set xs. f x = Inl e"
  by (induction xs) (auto split: sum.splits)

lemma normalize_valid: "normalizeStoreData r c = Inr (Accepted s) \<Longrightarrow> isValid s"
  by (erule normalize_accepted) simp

lemma getProp_error: "getProp v n = Inl e \<Longrightarrow> e = TypeError"
  by (cases v) auto

lemma readProp_error: "readProp r n = Inl e \<Longrightarrow> e = TypeError"
  by (cases r) (auto dest: getProp_error)

lemma normalize_error: "normalizeStoreData r c = Inl e \<Longrightarrow> e = TypeError"
  by (auto simp add: normalizeStoreData_def Let_def hasCoordinates_throws parseFloat_error
           split: sum.splits if_splits dest: includes_errors readProp_error)

lemma normalize_outcome:
  assumes "readProp r (asc ''py'') = Inr py"
  shows "(normalizeStoreData r c = Inr Rejected
            \<longleftrightarrow> hasCoordinates py (getField r (asc ''px'')) = Inr False)
       \<and> ((\<exists>s. normalizeStoreData r c = Inr (Accepted s))
            \<longrightarrow> hasCoordinates py (getField r (asc ''px'')) = Inr True)"
proof (cases "hasCoordinates py (getField r (asc ''px''))")
  case (Inl e)
  then show ?thesis using normalize_by_coordinates[OF assms, of e c] by simp
next
  case (Inr valid)
  show ?thesis
  proof (cases valid)
    case True
    then show ?thesis using normalize_by_coordinates[OF assms, of TypeError c] Inr by simp
  next
    case False
    then show ?thesis using normalize_by_coordinates[OF assms, of TypeError c] Inr by simp
  qed
qed

lemma survivors_Cons:
  "survivors f (x # xs) =
     (case f x of Inr (Accepted s) \<Rightarrow> s # survivors f xs | _ \<Rightarrow> survivors f xs)"
  by (simp add: survivors_def map_filter_simps(1) split: sum.splits normalized.splits)

lemma rejectedCount_Cons:
  "rejectedCount f (x # xs) =
     (if f x = Inr Rejected then Suc (rejectedCount f xs) else rejectedCount f xs)"
  by (simp add: rejectedCount_def)

lemma keepValid_survivors:
  assumes "list_all2 (\<lambda>x y. f x = Inr y) xs ns"
      and valid: "\<And>x s. f x = Inr (Accepted s) \<Longrightarrow> isValid s"
  shows "keepValid ns = survivors f xs \<and>
         length (keepValid ns) + rejectedCount f xs = length xs"
  using assms(1)
proof (induction rule: list_all2_induct)
  case Nil
  show ?case by (simp add: survivors_def rejectedCount_def)
next
  case (Cons x xs n ns)
  have ih1: "keepValid ns = survivors f xs"
    and ih2: "length (keepValid ns) + rejectedCount f xs = length xs"
    using Cons.IH by blast+
  show ?case
  proof (cases n)
    case Rejected
    then have fx: "f x = Inr Rejected" using Cons.hyps(1) by simp
    show ?thesis using Rejected fx ih1 ih2
      by (simp add: survivors_Cons rejectedCount_Cons)
  next
    case (Accepted s)
    then have fx: "f x = Inr (Accepted s)" using Cons.hyps(1) by simp
    then have "isValid s" using valid by simp
    then show ?thesis using Accepted fx ih1 ih2
      by (simp add: survivors_Cons rejectedCount_Cons)
  qed
qed

lemma getIndex_error: "getIndex v i = Inl e \<Longrightarrow> e = TypeError"
  by (cases v) auto

lemma ToString_error: "ToString nts v = Inl e \<Longrightarrow> e = TypeError"
  by (simp add: ToString_def split: if_splits)

lemma assignKeys_error: "assignKeys nts ks i row obj = Inl e \<Longrightarrow> e = TypeError"
  by (induction ks arbitrary: i obj)
     (auto split: sum.splits dest: getIndex_error ToString_error)

lemma expandRow_error: "expandRow nts config keys row = Inl e \<Longrightarrow> e = TypeError"
  by (cases keys)
     (auto simp add: expandRow_def split: sum.splits
           dest: assignKeys_error normalize_error)

lemma expandRow_valid: "expandRow nts config keys row = Inr (Accepted s) \<Longrightarrow> isValid s"
  by (cases keys) (auto simp add: expandRow_def split: sum.splits dest: normalize_valid)

lemma normalizeRecord_valid:
  "normalizeRecord nts config rawData r = Inr (Accepted s) \<Longrightarrow> isValid s"
  by (auto simp add: normalizeRecord_def split: if_splits
           dest: expandRow_valid normalize_valid)

lemma normalizeRecord_error:
  "normalizeRecord nts config rawData r = Inl e \<Longrightarrow> e = TypeError"
  by (auto simp add: normalizeRecord_def split: if_splits
           dest: expandRow_error normalize_error)

lemma legacyLastUpdated_error: "legacyLastUpdated xs = Inl e \<Longrightarrow> e = TypeError"
  by (cases xs) (auto simp add: legacyLastUpdated_def split: sum.splits dest: getProp_error)

lemma columnar_object: "columnar rawData \<Longrightarrow> \<exists>ps. rawData = Obj ps"
  by (cases rawData) (simp_all add: columnar_def field_def)

lemma processPayload_columnar:
  assumes "columnar rawData"
  shows "processPayload nts config rawData =
     (case mapE (expandRow nts config (field rawData (asc ''keys'')))
             (elements (field rawData (asc ''data''))) of
        Inl e \<Rightarrow> Inl e
      | Inr ns \<Rightarrow>
          Inr (keepValid ns, orElse (field rawData (asc ''last_updated'')) (Str [])))"
proof -
  obtain ps where ps: "rawData = Obj ps" using columnar_object[OF assms] by blast
  have k: "getProp rawData (asc ''keys'') = Inr (field rawData (asc ''keys''))"
    by (simp add: ps field_def)
  have c: "truthy (field rawData (asc ''keys'')) \<and> isArray (field rawData (asc ''data''))"
    using assms by (simp add: columnar_def)
  show ?thesis unfolding processPayload_def k using c by simp
qed

lemma processPayload_legacy:
  "processPayload nts config (Arr xs) =
     (case legacyLastUpdated xs of
        Inl e \<Rightarrow> Inl e
      | Inr lastUpdated \<Rightarrow>
          (case mapE (\<lambda>x. normalizeStoreData (Element x) config) xs of
             Inl e \<Rightarrow> Inl e
           | Inr ns \<Rightarrow> Inr (keepValid ns, lastUpdated)))"
  by (simp add: processPayload_def field_def elements_def cong: sum.case_cong)

lemma processPayload_other:
  assumes "\<not> columnar rawData" "\<not> isArray rawData"
  shows "processPayload nts config rawData =
           (if rawData = Null \<or> rawData = Undefined then Inl TypeError else Inl FormatError)"
  using assms by (cases rawData) (auto simp add: processPayload_def columnar_def field_def)

lemma not_columnar_array: "\<not> columnar (Arr xs)"
  by (simp add: columnar_def field_def)

lemma normalizeRecord_columnar:
  "columnar rawData \<Longrightarrow>
   normalizeRecord nts config rawData = expandRow nts config (field rawData (asc ''keys''))"
  by (rule ext) (simp add: normalizeRecord_def)

lemma normalizeRecord_legacy:
  "\<not> columnar rawData \<Longrightarrow>
   normalizeRecord nts config rawData = (\<lambda>x. normalizeStoreData (Element x) config)"
  by (rule ext) (simp add: normalizeRecord_def)

lemma mapE_total:
  "(\<forall>x \<in> set xs. \<exists>y. f x = Inr y) \<Longrightarrow> \<exists>ys. mapE f xs = Inr ys"
  by (induction xs) auto

lemma mapE_fails:
  assumes "\<exists>x \<in> set xs. \<exists>e. f x = Inl e"
  shows "\<exists>e. mapE f xs = Inl e"
proof (cases "mapE f xs")
  case (Inl e)
  then show ?thesis by blast
next
  case (Inr ys)
  then have "list_all2 (\<lambda>x y. f x = Inr y) xs ys" by (simp only: mapE_all2)
  then have "\<forall>x \<in> set xs. \<exists>y. f x = Inr y"
    by (auto simp add: list_all2_conv_all_nth in_set_conv_nth)
  then show ?thesis using assms by auto
qed

lemma mapE_survivors:
  assumes all: "\<forall>x \<in> set xs. \<exists>n. f x = Inr n"
      and valid: "\<And>x s. f x = Inr (Accepted s) \<Longrightarrow> isValid s"
  shows "\<exists>ns. mapE f xs = Inr ns \<and> keepValid ns = survivors f xs \<and>
              length (survivors f xs) + rejectedCount f xs = length xs"
proof -
  obtain ns where ns: "mapE f xs = Inr ns" using mapE_total[OF all] by blast
  have a: "list_all2 (\<lambda>x y. f x = Inr y) xs ns" using ns by (simp only: mapE_all2)
  have "keepValid ns = survivors f xs \<and> length (keepValid ns) + rejectedCount f xs = length xs"
    using a valid by (rule keepValid_survivors)
  then have k: "keepValid ns = survivors f xs"
    and l: "length (keepValid ns) + rejectedCount f xs = length xs" by blast+
  have "length (survivors f xs) + rejectedCount f xs = length xs" using l unfolding k .
  then show ?thesis using ns k by blast
qed

lemma fetch_ok:
  assumes "ok resp" "json resp = Some rawData"
  shows "fetchAndProcessStores nts config (Some resp) =
           (case processPayload nts config rawData of
              Inl e \<Rightarrow> ERROR e
            | Inr (stores, lastUpdated) \<Rightarrow> SUCCESS stores lastUpdated)"
  using assms by (simp add: fetchAndProcessStores_def)

text \<open>The legacy branch on an array none of whose elements throws.\<close>

lemma processPayload_legacy_all:
  assumes all: "\<forall>r \<in> set xs. \<exists>n. normalizeStoreData (Element r) config = Inr n"
  shows "processPayload nts config (Arr xs) =
           Inr (survivors (\<lambda>r. normalizeStoreData (Element r) config) xs,
                (case xs of
                   [] \<Rightarrow> Str []
                 | x # rest \<Rightarrow>
                     if truthy (field x (asc ''last_updated''))
                     then field x (asc ''last_updated'') else Str []))"
proof -
  let ?f = "\<lambda>r. normalizeStoreData (Element r) config"
  obtain ns where m: "mapE ?f xs = Inr ns" and k: "keepValid ns = survivors ?f xs"
    using mapE_survivors[of xs ?f, OF all] normalize_valid by blast
  have lu: "legacyLastUpdated xs =
              Inr (case xs of
                     [] \<Rightarrow> Str []
                   | x # rest \<Rightarrow>
                       if truthy (field x (asc ''last_updated''))
                       then field x (asc ''last_updated'') else Str [])"
  proof (cases xs)
    case Nil
    then show ?thesis by (simp add: legacyLastUpdated_def)
  next
    case (Cons x rest)
    then obtain n where "normalizeStoreData (Element x) config = Inr n"
      using all by auto
    then have "x \<noteq> Null \<and> x \<noteq> Undefined"
      by (auto simp add: normalizeStoreData_def)
    then show ?thesis using Cons by (cases x) (simp_all add: legacyLastUpdated_def field_def)
  qed
  show ?thesis unfolding processPayload_legacy lu using m k by simp
qed

text \<open>The columnar branch on rows none of which throws.\<close>

lemma processPayload_columnar_all:
  assumes col: "columnar rawData"
      and all: "\<forall>r \<in> set (elements (field rawData (asc ''data''))).
                  \<exists>n. expandRow nts config (field rawData (asc ''keys'')) r = Inr n"
  shows "processPayload nts config rawData =
           Inr (survivors (expandRow nts config (field rawData (asc ''keys'')))
                  (elements (field rawData (asc ''data''))),
                orElse (field rawData (asc ''last_updated'')) (Str []))"
proof -
  let ?f = "expandRow nts config (field rawData (asc ''keys''))"
  obtain ns where m: "mapE ?f (elements (field rawData (asc ''data''))) = Inr ns"
    and k: "keepValid ns = survivors ?f (elements (field rawData (asc ''data'')))"
    using mapE_survivors[of "elements (field rawData (asc ''data''))" ?f, OF all]
      expandRow_valid by blast
  show ?thesis unfolding processPayload_columnar[OF col] using m k by simp
qed

lemma sourceRecords_legacy: "sourceRecords (Arr xs) = xs"
  by (simp add: sourceRecords_def not_columnar_array elements_def)

lemma sourceRecords_columnar:
  "columnar rawData \<Longrightarrow> sourceRecords rawData = elements (field rawData (asc ''data''))"
  by (simp add: sourceRecords_def)

lemma processPayload_all:
  assumes shape: "columnar rawData \<or> isArray rawData"
      and all: "\<forall>r \<in> set (sourceRecords rawData).
                  \<exists>n. normalizeRecord nts config rawData r = Inr n"
  shows "\<exists>lastUpdated. processPayload nts config rawData =
           Inr (survivors (normalizeRecord nts config rawData) (sourceRecords rawData),
                lastUpdated)"
proof (cases "columnar rawData")
  case True
  show ?thesis
    using all processPayload_columnar_all[OF True, of nts config]
    unfolding normalizeRecord_columnar[OF True] sourceRecords_columnar[OF True] by blast
next
  case False
  then obtain xs where xs: "rawData = Arr xs" using shape by (cases rawData) simp_all
  have nl: "normalizeRecord nts config (Arr xs) = (\<lambda>x. normalizeStoreData (Element x) config)"
    by (rule normalizeRecord_legacy[OF not_columnar_array])
  show ?thesis
    using all processPayload_legacy_all[of xs config nts]
    unfolding xs nl sourceRecords_legacy by blast
qed

lemma processPayload_some_throw:
  assumes shape: "columnar rawData \<or> isArray rawData"
      and some: "\<exists>r \<in> set (sourceRecords rawData).
                   \<exists>e. normalizeRecord nts config rawData r = Inl e"
  shows "processPayload nts config rawData = Inl TypeError"
proof -
  obtain e where e: "mapE (normalizeRecord nts config rawData) (sourceRecords rawData) = Inl e"
    using mapE_fails[OF some] by blast
  then obtain r where "normalizeRecord nts config rawData r = Inl e"
    using mapE_error by fastforce
  then have t: "e = TypeError" by (rule normalizeRecord_error)
  show ?thesis
  proof (cases "columnar rawData")
    case True
    show ?thesis
      using e t
      unfolding processPayload_columnar[OF True] normalizeRecord_columnar[OF True]
        sourceRecords_columnar[OF True]
      by simp
  next
    case False
    then obtain xs where xs: "rawData = Arr xs" using shape by (cases rawData) simp_all
    have nl: "normalizeRecord nts config (Arr xs) = (\<lambda>x. normalizeStoreData (Element x) config)"
      by (rule normalizeRecord_legacy[OF not_columnar_array])
    have m: "mapE (\<lambda>x. normalizeStoreData (Element x) config) xs = Inl TypeError"
      using e t unfolding xs nl sourceRecords_legacy by simp
    show ?thesis
    proof (cases "legacyLastUpdated xs")
      case (Inl e')
      then have "e' = TypeError" by (rule legacyLastUpdated_error)
      then show ?thesis unfolding xs processPayload_legacy using Inl by simp
    next
      case (Inr lu)
      then show ?thesis unfolding xs processPayload_legacy using m by simp
    qed
  qed
qed

lemma rejectedCount_le: "rejectedCount f xs \<le> length xs"
  by (simp add: rejectedCount_def)

text \<open>
  Claim C6, as amended. For every fetched payload of one of the two shapes (the source
  sequence is \<open>data\<close> for a columnar payload and the array itself for a legacy one): when
  no record of the source sequence makes the normalization throw, ingestion succeeds,
  the store list is exactly the accepted records in the order of the source sequence,
  and its length is the number of records minus the number of rejected ones; when some
  record makes it throw, ingestion posts an error, a \<open>TypeError\<close>, and no store list.
\<close>

theorem ingest_survivors:
  assumes "ok resp" and "json resp = Some rawData"
      and "columnar rawData \<or> isArray rawData"
  shows "((\<forall>r \<in> set (sourceRecords rawData).
             \<exists>n. normalizeRecord nts config rawData r = Inr n) \<longrightarrow>
          (\<exists>lastUpdated.
             fetchAndProcessStores nts config (Some resp)
               = SUCCESS (survivors (normalizeRecord nts config rawData) (sourceRecords rawData))
                   lastUpdated) \<and>
          length (survivors (normalizeRecord nts config rawData) (sourceRecords rawData))
            = length (sourceRecords rawData)
                - rejectedCount (normalizeRecord nts config rawData) (sourceRecords rawData) \<and>
          rejectedCount (normalizeRecord nts config rawData) (sourceRecords rawData)
            \<le> length (sourceRecords rawData))
       \<and> ((\<exists>r \<in> set (sourceRecords rawData).
              \<exists>e. normalizeRecord nts config rawData r = Inl e) \<longrightarrow>
           fetchAndProcessStores nts config (Some resp) = ERROR TypeError)"
proof (intro conjI impI)
  assume all: "\<forall>r \<in> set (sourceRecords rawData).
                 \<exists>n. normalizeRecord nts config rawData r = Inr n"
  obtain lastUpdated where
    "processPayload nts config rawData =
       Inr (survivors (normalizeRecord nts config rawData) (sourceRecords rawData), lastUpdated)"
    using processPayload_all[OF assms(3) all] by blast
  then show "\<exists>lastUpdated.
             fetchAndProcessStores nts config (Some resp)
               = SUCCESS (survivors (normalizeRecord nts config rawData) (sourceRecords rawData))
                   lastUpdated"
    unfolding fetch_ok[OF assms(1,2)] by simp
  have "length (survivors (normalizeRecord nts config rawData) (sourceRecords rawData))
          + rejectedCount (normalizeRecord nts config rawData) (sourceRecords rawData)
          = length (sourceRecords rawData)"
    using mapE_survivors[of "sourceRecords rawData" "normalizeRecord nts config rawData", OF all]
      normalizeRecord_valid by blast
  then show "length (survivors (normalizeRecord nts config rawData) (sourceRecords rawData))
            = length (sourceRecords rawData)
                - rejectedCount (normalizeRecord nts config rawData) (sourceRecords rawData)"
    by simp
  show "rejectedCount (normalizeRecord nts config rawData) (sourceRecords rawData)
            \<le> length (sourceRecords rawData)"
    by (rule rejectedCount_le)
next
  assume "\<exists>r \<in> set (sourceRecords rawData).
            \<exists>e. normalizeRecord nts config rawData r = Inl e"
  then have "processPayload nts config rawData = Inl TypeError"
    using processPayload_some_throw[OF assms(3)] by blast
  then show "fetchAndProcessStores nts config (Some resp) = ERROR TypeError"
    unfolding fetch_ok[OF assms(1,2)] by simp
qed

lemmas ingest_eval = fetchAndProcessStores_def processPayload_def okResponse_def field_def
  elements_def expandRow_def emptyObj_def setProp_def protoSetterVisible_def readStoreObj_def
  legacyLastUpdated_def ToString_def

lemma payloadAB_records:
  "columnar payloadAB"
  "sourceRecords payloadAB =
     [Arr [Str (asc ''A''), Str (asc ''25.03''), Str (asc ''121.5''),
           Str [0x55AE, 0x53E3, 0x5473], Str (asc ''blue'')],
      Arr [Str (asc ''B''), Str (asc ''bad''), Str (asc ''121.5''),
           Str [0x96D9, 0x53E3, 0x5473], Str (asc ''red'')]]"
  by (simp_all add: sourceRecords_def columnar_def payloadAB_def field_def lookupLast_def
        elements_def asc_def)

lemma payloadAB_rows:
  "normalizeRecord noNumbers CONFIG payloadAB
     (Arr [Str (asc ''A''), Str (asc ''25.03''), Str (asc ''121.5''),
           Str [0x55AE, 0x53E3, 0x5473], Str (asc ''blue'')]) = Inr (Accepted storeA)"
  "normalizeRecord noNumbers CONFIG payloadAB
     (Arr [Str (asc ''B''), Str (asc ''bad''), Str (asc ''121.5''),
           Str [0x96D9, 0x53E3, 0x5473], Str (asc ''red'')]) = Inr Rejected"
  unfolding normalizeRecord_columnar[OF payloadAB_records(1)]
  by (simp_all add: payloadAB_def storeA_def ingest_eval normalize_eval)

text \<open>
  The first scenario of the specification: of two rows, the second with \<open>py = "bad"\<close>,
  one survives.
\<close>

theorem ingest_survivors_witness:
  "(\<exists>lastUpdated. fetchAndProcessStores noNumbers CONFIG (Some (okResponse payloadAB))
      = SUCCESS [storeA] lastUpdated) \<and>
   length (sourceRecords payloadAB) = 2 \<and>
   rejectedCount (normalizeRecord noNumbers CONFIG payloadAB) (sourceRecords payloadAB) = 1"
proof -
  have o: "ok (okResponse payloadAB)" "json (okResponse payloadAB) = Some payloadAB"
    by (simp_all add: okResponse_def)
  have s: "columnar payloadAB \<or> isArray payloadAB" using payloadAB_records(1) by simp
  have all: "\<forall>r \<in> set (sourceRecords payloadAB).
               \<exists>n. normalizeRecord noNumbers CONFIG payloadAB r = Inr n"
    unfolding payloadAB_records(2) using payloadAB_rows by simp
  have sv: "survivors (normalizeRecord noNumbers CONFIG payloadAB) (sourceRecords payloadAB)
              = [storeA]"
    unfolding payloadAB_records(2)
    by (simp add: survivors_Cons payloadAB_rows) (simp add: survivors_def)
  have rc: "rejectedCount (normalizeRecord noNumbers CONFIG payloadAB) (sourceRecords payloadAB)
              = 1"
    unfolding payloadAB_records(2)
    by (simp add: rejectedCount_Cons payloadAB_rows) (simp add: rejectedCount_def)
  have l: "length (sourceRecords payloadAB) = 2" unfolding payloadAB_records(2) by simp
  show ?thesis
    using ingest_survivors[OF o s, of noNumbers CONFIG] all sv rc l by simp
qed

text \<open>
  The claim as stated fails: of the two records of this legacy payload the first is
  accepted, the second has the number 5 as \<open>flavorType\<close> and makes the normalization
  throw, and ingestion posts an error instead of the list of the accepted records.
\<close>

theorem ingest_throwing_record_counterexample:
  "fetchAndProcessStores noNumbers CONFIG
     (Some (okResponse (Arr [recordC, recordNumericFlavor]))) = ERROR TypeError \<and>
   survivors (\<lambda>r. normalizeStoreData (Element r) CONFIG) [recordC, recordNumericFlavor]
     = [storeC]"
proof -
  have n: "normalizeStoreData (Element recordNumericFlavor) CONFIG = Inl TypeError"
    by (simp add: recordNumericFlavor_def normalize_eval)
  have l: "legacyLastUpdated [recordC, recordNumericFlavor] = Inr (Str (asc ''2024-02-02''))"
    by (simp add: legacyLastUpdated_def recordC_def lookupLast_def asc_def)
  have p: "processPayload noNumbers CONFIG (Arr [recordC, recordNumericFlavor]) = Inl TypeError"
    unfolding processPayload_legacy l by (simp add: normalize_recordC n)
  have f: "fetchAndProcessStores noNumbers CONFIG
             (Some (okResponse (Arr [recordC, recordNumericFlavor]))) = ERROR TypeError"
    using p by (simp add: fetchAndProcessStores_def okResponse_def)
  have s: "survivors (\<lambda>r. normalizeStoreData (Element r) CONFIG) [recordC, recordNumericFlavor]
             = [storeC]"
    by (simp add: survivors_Cons normalize_recordC n) (simp add: survivors_def)
  show ?thesis using f s by simp
qed

lemma ingest_payloadAB:
  "fetchAndProcessStores noNumbers CONFIG (Some (okResponse payloadAB))
     = SUCCESS [storeA] (Str (asc ''2024-01-01''))"
  by (simp add: payloadAB_def storeA_def ingest_eval normalize_eval)

lemma ingest_recordC:
  "fetchAndProcessStores noNumbers CONFIG (Some (okResponse (Arr [recordC])))
     = SUCCESS [storeC] (Str (asc ''2024-02-02''))"
  by (simp add: recordC_def storeC_def ingest_eval normalize_eval)

text \<open>
  Claim C8, as amended. For every legacy array payload with a first element: when no
  element makes the normalization throw, ingestion succeeds, the timestamp is the first
  element's \<open>last_updated\<close> when that is truthy and the empty string when it is falsy or
  absent, the store list is made of the accepted records of all the elements, the first
  included, and the first element heads the list exactly when its coordinates are
  valid and is left out when they are not; when some element makes the normalization
  throw, ingestion posts an error, a \<open>TypeError\<close>, and no timestamp.
\<close>

theorem legacy_timestamp:
  assumes "ok resp" and "json resp = Some (Arr (x # xs))"
  shows "((\<forall>r \<in> set (x # xs). \<exists>n. normalizeStoreData (Element r) config = Inr n) \<longrightarrow>
          fetchAndProcessStores nts config (Some resp)
            = SUCCESS (survivors (\<lambda>r. normalizeStoreData (Element r) config) (x # xs))
                (if truthy (field x (asc ''last_updated''))
                 then field x (asc ''last_updated'') else Str []) \<and>
          ((\<exists>s. normalizeStoreData (Element x) config = Inr (Accepted s) \<and>
                survivors (\<lambda>r. normalizeStoreData (Element r) config) (x # xs)
                  = s # survivors (\<lambda>r. normalizeStoreData (Element r) config) xs)
             \<longleftrightarrow> hasCoordinates (field x (asc ''py'')) (field x (asc ''px'')) = Inr True) \<and>
          (hasCoordinates (field x (asc ''py'')) (field x (asc ''px'')) = Inr False \<longrightarrow>
             survivors (\<lambda>r. normalizeStoreData (Element r) config) (x # xs)
               = survivors (\<lambda>r. normalizeStoreData (Element r) config) xs))
       \<and> ((\<exists>r \<in> set (x # xs). \<exists>e. normalizeStoreData (Element r) config = Inl e) \<longrightarrow>
           fetchAndProcessStores nts config (Some resp) = ERROR TypeError)"
proof (intro conjI impI)
  let ?f = "\<lambda>r. normalizeStoreData (Element r) config"
  assume all: "\<forall>r \<in> set (x # xs). \<exists>n. ?f r = Inr n"
  have "processPayload nts config (Arr (x # xs)) =
          Inr (survivors ?f (x # xs),
               (if truthy (field x (asc ''last_updated''))
                then field x (asc ''last_updated'') else Str []))"
    using processPayload_legacy_all[OF all, of nts] by simp
  then show "fetchAndProcessStores nts config (Some resp)
            = SUCCESS (survivors ?f (x # xs))
                (if truthy (field x (asc ''last_updated''))
                 then field x (asc ''last_updated'') else Str [])"
    unfolding fetch_ok[OF assms] by simp
  obtain n where n: "?f x = Inr n" using all by auto
  then have nonnull: "x \<noteq> Null \<and> x \<noteq> Undefined"
    by (auto simp add: normalizeStoreData_def)
  have py: "readProp (Element x) (asc ''py'') = Inr (field x (asc ''py''))"
    using nonnull by (cases x) (simp_all add: field_def)
  have px: "getField (Element x) (asc ''px'') = field x (asc ''px'')"
    by (simp add: getField_def field_def)
  note o = normalize_outcome[OF py, of config, unfolded px]
  show "(\<exists>s. ?f x = Inr (Accepted s) \<and> survivors ?f (x # xs) = s # survivors ?f xs)
          \<longleftrightarrow> hasCoordinates (field x (asc ''py'')) (field x (asc ''px'')) = Inr True"
  proof (cases n)
    case Rejected
    then show ?thesis using n o by (simp add: survivors_Cons)
  next
    case (Accepted s)
    then show ?thesis using n o by (auto simp add: survivors_Cons)
  qed
  show "survivors ?f (x # xs) = survivors ?f xs"
    if "hasCoordinates (field x (asc ''py'')) (field x (asc ''px'')) = Inr False"
    using that o by (simp add: survivors_Cons)
next
  assume "\<exists>r \<in> set (x # xs). \<exists>e. normalizeStoreData (Element r) config = Inl e"
  then have "\<exists>r \<in> set (sourceRecords (Arr (x # xs))).
               \<exists>e. normalizeRecord nts config (Arr (x # xs)) r = Inl e"
    unfolding sourceRecords_legacy normalizeRecord_legacy[OF not_columnar_array] .
  then have "processPayload nts config (Arr (x # xs)) = Inl TypeError"
    by (intro processPayload_some_throw) simp_all
  then show "fetchAndProcessStores nts config (Some resp) = ERROR TypeError"
    unfolding fetch_ok[OF assms] by simp
qed

text \<open>
  The legacy scenario of the specification: one record, which is kept, and its
  \<open>last_updated\<close> as the timestamp.
\<close>

theorem legacy_timestamp_witness:
  "fetchAndProcessStores noNumbers CONFIG (Some (okResponse (Arr [recordC])))
     = SUCCESS [storeC] (Str (asc ''2024-02-02'')) \<and>
   hasCoordinates (field recordC (asc ''py'')) (field recordC (asc ''px'')) = Inr True"
proof -
  have o: "ok (okResponse (Arr [recordC]))"
    "json (okResponse (Arr [recordC])) = Some (Arr [recordC])"
    by (simp_all add: okResponse_def)
  have all: "\<forall>r \<in> set [recordC]. \<exists>n. normalizeStoreData (Element r) CONFIG = Inr n"
    using normalize_recordC by simp
  have t: "field recordC (asc ''last_updated'') = Str (asc ''2024-02-02'')"
    by (simp add: recordC_def field_def lookupLast_def asc_def)
  have tr: "truthy (Str (asc ''2024-02-02''))" by (simp add: asc_def)
  have sv: "survivors (\<lambda>r. normalizeStoreData (Element r) CONFIG) [recordC] = [storeC]"
    by (simp add: survivors_Cons normalize_recordC) (simp add: survivors_def)
  have hc: "hasCoordinates (field recordC (asc ''py'')) (field recordC (asc ''px'')) = Inr True"
    by (simp add: recordC_def field_def lookupLast_def hasCoordinates_def parseFloat_def
          isNaN_def parse_defs asc_def)
  have "fetchAndProcessStores noNumbers CONFIG (Some (okResponse (Arr [recordC])))
          = SUCCESS (survivors (\<lambda>r. normalizeStoreData (Element r) CONFIG) [recordC])
              (if truthy (field recordC (asc ''last_updated''))
               then field recordC (asc ''last_updated'') else Str [])"
    using legacy_timestamp[OF o, of CONFIG noNumbers] all by blast
  then show ?thesis unfolding sv t using tr hc by simp
qed

text \<open>
  The claim as stated fails: the first element of this legacy payload carries a truthy
  \<open>last_updated\<close> and valid coordinates, its \<open>flavorType\<close> is the number 5, and ingestion
  posts an error and no timestamp.
\<close>

theorem legacy_timestamp_counterexample:
  "truthy (field recordDated (asc ''last_updated'')) \<and>
   hasCoordinates (field recordDated (asc ''py'')) (field recordDated (asc ''px'')) = Inr True \<and>
   fetchAndProcessStores noNumbers CONFIG (Some (okResponse (Arr [recordDated])))
     = ERROR TypeError"
  by (simp add: recordDated_def ingest_eval normalize_eval)

lemma processPayload_error_shape:
  assumes "processPayload nts config rawData = Inl FormatError"
  shows "rawData \<noteq> Null \<and> rawData \<noteq> Undefined \<and> \<not> columnar rawData \<and> \<not> isArray rawData"
proof -
  have c: "\<not> columnar rawData"
  proof
    assume col: "columnar rawData"
    obtain x where "expandRow nts config (field rawData (asc ''keys'')) x = Inl FormatError"
      using assms mapE_error[of "expandRow nts config (field rawData (asc ''keys''))" _ FormatError]
      unfolding processPayload_columnar[OF col] by (auto split: sum.splits)
    then show False using expandRow_error by fastforce
  qed
  have a: "\<not> isArray rawData"
  proof
    assume "isArray rawData"
    then obtain xs where xs: "rawData = Arr xs" by (cases rawData) simp_all
    have "legacyLastUpdated xs = Inl FormatError \<or>
          mapE (\<lambda>x. normalizeStoreData (Element x) config) xs = Inl FormatError"
      using assms unfolding xs processPayload_legacy by (auto split: sum.splits)
    then show False
    proof
      assume "legacyLastUpdated xs = Inl FormatError"
      then show False using legacyLastUpdated_error by fastforce
    next
      assume "mapE (\<lambda>x. normalizeStoreData (Element x) config) xs = Inl FormatError"
      then obtain x where "normalizeStoreData (Element x) config = Inl FormatError"
        using mapE_error by fastforce
      then show False using normalize_error by fastforce
    qed
  qed
  show ?thesis using assms processPayload_other[OF c a, of nts config] c a
    by (auto split: if_splits)
qed

text \<open>
  Claim C4, as amended. Ingestion fails with the format error exactly when the response
  is successful, its body parses, and the payload is not \<open>null\<close>, is no array, and does
  not have both a truthy \<open>keys\<close> and an array \<open>data\<close>; the payload \<open>null\<close> fails with a
  \<open>TypeError\<close> instead. A payload with a truthy \<open>keys\<close> and an empty \<open>data\<close> array, and
  the empty array, both succeed with no store; a response that is not successful fails
  with the network error carrying its status text.
\<close>

theorem format_error_iff:
  "(fetchAndProcessStores nts config fetched = ERROR FormatError \<longleftrightarrow>
      (\<exists>resp rawData. fetched = Some resp \<and> ok resp \<and> json resp = Some rawData \<and>
         rawData \<noteq> Null \<and> rawData \<noteq> Undefined \<and> \<not> columnar rawData \<and> \<not> isArray rawData))
   \<and> (\<forall>resp rawData. fetched = Some resp \<and> ok resp \<and> json resp = Some rawData \<and>
         truthy (field rawData (asc ''keys'')) \<and> field rawData (asc ''data'') = Arr [] \<longrightarrow>
         fetchAndProcessStores nts config fetched
           = SUCCESS [] (orElse (field rawData (asc ''last_updated'')) (Str [])))
   \<and> (\<forall>resp. fetched = Some resp \<and> ok resp \<and> json resp = Some (Arr []) \<longrightarrow>
         fetchAndProcessStores nts config fetched = SUCCESS [] (Str []))
   \<and> (\<forall>resp. fetched = Some resp \<and> \<not> ok resp \<longrightarrow>
         fetchAndProcessStores nts config fetched = ERROR (NetworkError (statusText resp)))
   \<and> (\<forall>resp. fetched = Some resp \<and> ok resp \<and> json resp = Some Null \<longrightarrow>
         fetchAndProcessStores nts config fetched = ERROR TypeError)"
proof (intro conjI allI impI)
  show "fetchAndProcessStores nts config fetched = ERROR FormatError \<longleftrightarrow>
      (\<exists>resp rawData. fetched = Some resp \<and> ok resp \<and> json resp = Some rawData \<and>
         rawData \<noteq> Null \<and> rawData \<noteq> Undefined \<and> \<not> columnar rawData \<and> \<not> isArray rawData)"
  proof
    assume e: "fetchAndProcessStores nts config fetched = ERROR FormatError"
    then obtain resp rawData where f: "fetched = Some resp" "ok resp" "json resp = Some rawData"
      and p: "processPayload nts config rawData = Inl FormatError"
      by (auto simp add: fetchAndProcessStores_def split: option.splits if_splits sum.splits)
    show "\<exists>resp rawData. fetched = Some resp \<and> ok resp \<and> json resp = Some rawData \<and>
         rawData \<noteq> Null \<and> rawData \<noteq> Undefined \<and> \<not> columnar rawData \<and> \<not> isArray rawData"
      using f processPayload_error_shape[OF p] by blast
  next
    assume "\<exists>resp rawData. fetched = Some resp \<and> ok resp \<and> json resp = Some rawData \<and>
         rawData \<noteq> Null \<and> rawData \<noteq> Undefined \<and> \<not> columnar rawData \<and> \<not> isArray rawData"
    then obtain resp rawData where f: "fetched = Some resp" "ok resp" "json resp = Some rawData"
      and n: "rawData \<noteq> Null" "rawData \<noteq> Undefined" and c: "\<not> columnar rawData"
      and a: "\<not> isArray rawData" by blast
    have "processPayload nts config rawData = Inl FormatError"
      using processPayload_other[OF c a, of nts config] n by simp
    then show "fetchAndProcessStores nts config fetched = ERROR FormatError"
      using f by (simp add: fetchAndProcessStores_def)
  qed
next
  fix resp rawData
  assume h: "fetched = Some resp \<and> ok resp \<and> json resp = Some rawData \<and>
         truthy (field rawData (asc ''keys'')) \<and> field rawData (asc ''data'') = Arr []"
  then have col: "columnar rawData" by (simp add: columnar_def)
  have "processPayload nts config rawData
          = Inr ([], orElse (field rawData (asc ''last_updated'')) (Str []))"
    unfolding processPayload_columnar[OF col] using h by (simp add: elements_def)
  then show "fetchAndProcessStores nts config fetched
           = SUCCESS [] (orElse (field rawData (asc ''last_updated'')) (Str []))"
    using h by (simp add: fetchAndProcessStores_def)
next
  fix resp
  assume h: "fetched = Some resp \<and> ok resp \<and> json resp = Some (Arr [])"
  have "processPayload nts config (Arr []) = Inr ([], Str [])"
    unfolding processPayload_legacy by (simp add: legacyLastUpdated_def)
  then show "fetchAndProcessStores nts config fetched = SUCCESS [] (Str [])"
    using h by (simp add: fetchAndProcessStores_def)
next
  fix resp
  assume "fetched = Some resp \<and> \<not> ok resp"
  then show "fetchAndProcessStores nts config fetched = ERROR (NetworkError (statusText resp))"
    by (simp add: fetchAndProcessStores_def)
next
  fix resp
  assume h: "fetched = Some resp \<and> ok resp \<and> json resp = Some Null"
  have "processPayload nts config Null = Inl TypeError"
    by (simp add: processPayload_def)
  then show "fetchAndProcessStores nts config fetched = ERROR TypeError"
    using h by (simp add: fetchAndProcessStores_def)
qed

text \<open>The empty object is a format error, the empty array is not, \<open>null\<close> is a \<open>TypeError\<close>.\<close>

theorem format_error_iff_witness:
  "fetchAndProcessStores noNumbers CONFIG (Some (okResponse (Obj []))) = ERROR FormatError \<and>
   fetchAndProcessStores noNumbers CONFIG (Some (okResponse (Arr []))) = SUCCESS [] (Str []) \<and>
   fetchAndProcessStores noNumbers CONFIG (Some (okResponse Null)) = ERROR TypeError"
proof -
  have c: "\<not> columnar (Obj [])" by (simp add: columnar_def field_def lookupLast_def)
  have "fetchAndProcessStores noNumbers CONFIG (Some (okResponse (Obj []))) = ERROR FormatError"
    using format_error_iff[of noNumbers CONFIG "Some (okResponse (Obj []))"] c
    by (simp add: okResponse_def)
  moreover have "fetchAndProcessStores noNumbers CONFIG (Some (okResponse (Arr [])))
                   = SUCCESS [] (Str [])"
    using format_error_iff[of noNumbers CONFIG "Some (okResponse (Arr []))"]
    by (simp add: okResponse_def)
  moreover have "fetchAndProcessStores noNumbers CONFIG (Some (okResponse Null))
                   = ERROR TypeError"
    using format_error_iff[of noNumbers CONFIG "Some (okResponse Null)"]
    by (simp add: okResponse_def)
  ultimately show ?thesis by simp
qed

text \<open>
  The claim as stated fails: a payload whose \<open>keys\<close> is the string \<open>abc\<close> has neither
  accepted shape, and ingestion succeeds on it.
\<close>

theorem string_keys_counterexample:
  "\<not> acceptedShape payloadStringKeys \<and>
   fetchAndProcessStores noNumbers CONFIG (Some (okResponse payloadStringKeys))
     = SUCCESS [] (Str [])"
  by (simp add: acceptedShape_def payloadStringKeys_def lookupLast_def asc_def orElse_def
        ingest_eval)

text \<open>
  Claim C3 fails on the code. With the single key \<open>__proto__\<close> and a row holding an
  object with coordinates, the columnar branch makes that object the prototype of
  \<open>storeObj\<close>, which then inherits the coordinates and is accepted; the flat object zipped
  from the same key and row has an own property of that name and no coordinates, and
  the legacy path rejects it.
\<close>

theorem proto_key_divergence:
  "fetchAndProcessStores noNumbers CONFIG
     (Some (okResponse (columnarPayload protoKeys protoRows)))
     = SUCCESS [unnamedStore (Finite 25) (Finite 121)] (Str []) \<and>
   fetchAndProcessStores noNumbers CONFIG
     (Some (okResponse (legacyPayload protoKeys protoRows)))
     = SUCCESS [] (Str [])"
  by (simp add: columnarPayload_def legacyPayload_def zipObject_def protoKeys_def protoRows_def
        coordinatesOnly_def unnamedStore_def ingest_eval normalize_eval)

lemma assignKeys_plain:
  assumes "asc ''__proto__'' \<notin> set ks" "i + length ks \<le> length row"
      and "proto obj = ObjectPrototype"
  shows "assignKeys nts (map Str ks) i (Arr row) obj
           = Inr (obj\<lparr>own := own obj ++ map_of (rev (zip ks (drop i row)))\<rparr>)"
  using assms
proof (induction ks arbitrary: i obj)
  case Nil
  then show ?case by simp
next
  case (Cons k ks)
  define obj1 where "obj1 = obj\<lparr>own := (own obj)(k \<mapsto> row ! i)\<rparr>"
  have i: "i < length row" using Cons.prems(2) by simp
  have k: "k \<noteq> asc ''__proto__''" using Cons.prems(1) by auto
  have d: "drop i row = row ! i # drop (Suc i) row" using i by (simp add: Cons_nth_drop_Suc)
  have sp: "setProp obj k (row ! i) = obj1"
    using k by (simp add: setProp_def obj1_def)
  have o1: "own obj1 = (own obj)(k \<mapsto> row ! i)" "proto obj1 = ObjectPrototype"
    using Cons.prems(3) by (simp_all add: obj1_def)
  have o2: "\<And>X. obj1\<lparr>own := X\<rparr> = obj\<lparr>own := X\<rparr>" by (simp add: obj1_def)
  have ih: "assignKeys nts (map Str ks) (Suc i) (Arr row) obj1
              = Inr (obj1\<lparr>own := own obj1 ++ map_of (rev (zip ks (drop (Suc i) row)))\<rparr>)"
    using Cons.prems(1,2) o1(2) by (intro Cons.IH) simp_all
  have m: "(own obj)(k \<mapsto> row ! i) ++ map_of (rev (zip ks (drop (Suc i) row)))
             = own obj ++ map_of (rev (zip (k # ks) (drop i row)))"
  proof -
    have "map_of (rev (zip (k # ks) (drop i row)))
            = [k \<mapsto> row ! i] ++ map_of (rev (zip ks (drop (Suc i) row)))"
      unfolding d by simp
    moreover have "(own obj)(k \<mapsto> row ! i) = own obj ++ [k \<mapsto> row ! i]" by simp
    ultimately show ?thesis by (simp only: map_add_assoc)
  qed
  have "assignKeys nts (map Str (k # ks)) i (Arr row) obj
          = assignKeys nts (map Str ks) (Suc i) (Arr row) (setProp obj k (row ! i))"
    using i by (simp add: ToString_def)
  also have "\<dots> = Inr (obj\<lparr>own := (own obj)(k \<mapsto> row ! i)
                               ++ map_of (rev (zip ks (drop (Suc i) row)))\<rparr>)"
    unfolding sp ih o1 o2 ..
  finally show ?case unfolding m .
qed

lemma built_reads_zip:
  assumes "asc ''__proto__'' \<notin> set ks" "length ks \<le> length row"
  shows "\<exists>obj. assignKeys nts (map Str ks) 0 (Arr row) emptyObj = Inr obj \<and>
           (\<forall>n. readProp (Built obj) n = readProp (Element (zipObject ks row)) n)"
proof -
  have "assignKeys nts (map Str ks) 0 (Arr row) emptyObj
          = Inr (emptyObj\<lparr>own := own emptyObj ++ map_of (rev (zip ks (drop 0 row)))\<rparr>)"
    using assms by (intro assignKeys_plain) (simp_all add: emptyObj_def)
  moreover have "\<forall>n. readProp (Built (emptyObj\<lparr>own := own emptyObj ++ map_of (rev (zip ks (drop 0 row)))\<rparr>)) n
                  = readProp (Element (zipObject ks row)) n"
    by (simp add: emptyObj_def readStoreObj_def zipObject_def lookupLast_def
          split: option.splits)
  ultimately show ?thesis by blast
qed

lemma normalize_reads:
  assumes "\<forall>n. readProp r n = readProp r' n"
  shows "normalizeStoreData r c = normalizeStoreData r' c"
proof -
  have p: "readProp r = readProp r'" using assms by (intro ext) simp
  have g: "getField r = getField r'" by (intro ext) (simp add: getField_def p)
  show ?thesis unfolding normalizeStoreData_def p g ..
qed

lemma expandRow_zip:
  assumes "asc ''__proto__'' \<notin> set ks" "length ks \<le> length row"
  shows "expandRow nts config (Arr (map Str ks)) (Arr row)
           = normalizeStoreData (Element (zipObject ks row)) config"
proof -
  obtain obj where a: "assignKeys nts (map Str ks) 0 (Arr row) emptyObj = Inr obj"
    and r: "\<forall>n. readProp (Built obj) n = readProp (Element (zipObject ks row)) n"
    using built_reads_zip[OF assms] by blast
  show ?thesis using a normalize_reads[OF r] by (simp add: expandRow_def)
qed

lemma mapE_map: "mapE f (map g xs) = mapE (\<lambda>x. f (g x)) xs"
  by (induction xs) (simp_all cong: sum.case_cong)

lemma mapE_cong_set: "(\<And>x. x \<in> set xs \<Longrightarrow> f x = g x) \<Longrightarrow> mapE f xs = mapE g xs"
  by (induction xs) (simp_all cong: sum.case_cong)

lemma legacyLastUpdated_objects:
  "\<exists>lu. legacyLastUpdated (map (zipObject ks) rows) = Inr lu"
  by (cases rows) (simp_all add: legacyLastUpdated_def zipObject_def)

text \<open>
  With string keys none of which is \<open>__proto__\<close>, and rows that have a value for every
  key, the two paths do yield the same stores, or fail with the same error.
\<close>

lemma columnar_legacy_agree:
  assumes "asc ''__proto__'' \<notin> set keys"
      and "\<forall>row \<in> set rows. length keys \<le> length row"
  shows "storesOf (fetchAndProcessStores nts config
                    (Some (okResponse (columnarPayload keys rows))))
       = storesOf (fetchAndProcessStores nts config
                    (Some (okResponse (legacyPayload keys rows))))"
proof -
  let ?f = "\<lambda>row. normalizeStoreData (Element (zipObject keys row)) config"
  have col: "columnar (columnarPayload keys rows)"
    by (simp add: columnar_def columnarPayload_def field_def lookupLast_def asc_def)
  have k: "field (columnarPayload keys rows) (asc ''keys'') = Arr (map Str keys)"
    and d: "field (columnarPayload keys rows) (asc ''data'') = Arr (map Arr rows)"
    by (simp_all add: columnarPayload_def field_def lookupLast_def asc_def)
  have m1: "mapE (expandRow nts config (Arr (map Str keys))) (map Arr rows) = mapE ?f rows"
    unfolding mapE_map using assms by (intro mapE_cong_set) (simp add: expandRow_zip)
  have m2: "mapE (\<lambda>x. normalizeStoreData (Element x) config) (map (zipObject keys) rows)
              = mapE ?f rows"
    unfolding mapE_map ..
  obtain lu where lu: "legacyLastUpdated (map (zipObject keys) rows) = Inr lu"
    using legacyLastUpdated_objects by blast
  have c: "processPayload nts config (columnarPayload keys rows)
             = (case mapE ?f rows of Inl e \<Rightarrow> Inl e
                | Inr ns \<Rightarrow> Inr (keepValid ns,
                    orElse (field (columnarPayload keys rows) (asc ''last_updated'')) (Str [])))"
    unfolding processPayload_columnar[OF col] k d by (simp add: elements_def m1)
  have l: "processPayload nts config (legacyPayload keys rows)
             = (case mapE ?f rows of Inl e \<Rightarrow> Inl e | Inr ns \<Rightarrow> Inr (keepValid ns, lu))"
    unfolding legacyPayload_def processPayload_legacy lu m2 by simp
  have fc: "\<And>p. fetchAndProcessStores nts config (Some (okResponse p))
              = (case processPayload nts config p of
                   Inl e \<Rightarrow> ERROR e
                 | Inr (stores, lastUpdated) \<Rightarrow> SUCCESS stores lastUpdated)"
    by (simp add: fetchAndProcessStores_def okResponse_def)
  show ?thesis
    unfolding fc c l by (cases "mapE ?f rows") (simp_all add: storesOf_def)
qed

section \<open>Escaping and the popup\<close>

lemma replaceAll_concat:
  "replaceAll c r (concat (map g xs)) = concat (map (\<lambda>x. replaceAll c r (g x)) xs)"
  by (induction xs) (simp_all add: replaceAll_def)

lemma escape_one:
  \<open>replaceAll 0x27 (asc ''&#039;'')
     (replaceAll 0x22 (asc ''&quot;'')
       (replaceAll 0x3E (asc ''&gt;'')
         (replaceAll 0x3C (asc ''&lt;'')
           (replaceAll 0x26 (asc ''&amp;'') [x])))) = escapeChar x\<close>
  by (simp add: replaceAll_def escapeChar_def asc_def)

lemma five_replacements:
  \<open>replaceAll 0x27 (asc ''&#039;'')
     (replaceAll 0x22 (asc ''&quot;'')
       (replaceAll 0x3E (asc ''&gt;'')
         (replaceAll 0x3C (asc ''&lt;'')
           (replaceAll 0x26 (asc ''&amp;'') t)))) = concat (map escapeChar t)\<close>
proof -
  have s: "t = concat (map (\<lambda>x. [x]) t)" by simp
  have \<open>replaceAll 0x27 (asc ''&#039;'')
     (replaceAll 0x22 (asc ''&quot;'')
       (replaceAll 0x3E (asc ''&gt;'')
         (replaceAll 0x3C (asc ''&lt;'')
           (replaceAll 0x26 (asc ''&amp;'') (concat (map (\<lambda>x. [x]) t))))))
     = concat (map escapeChar t)\<close>
    by (simp only: replaceAll_concat escape_one)
  then show ?thesis using s by simp
qed

lemma escapeHtml_one_pass:
  "escapeHtml nts text =
     (if \<not> truthy text then Inr []
      else (case ToString nts text of
              Inl e \<Rightarrow> Inl e
            | Inr t \<Rightarrow> Inr (concat (map escapeChar t))))"
  unfolding escapeHtml_def five_replacements ..

lemma escapeChar_safe: \<open>set (escapeChar c) \<inter> {0x3C, 0x3E, 0x22, 0x27} = {}\<close>
  by (simp add: escapeChar_def asc_def)

lemma escapeHtml_safe:
  "escapeHtml nts text = Inr r \<Longrightarrow> c \<in> set r \<Longrightarrow> c \<notin> {0x3C, 0x3E, 0x22, 0x27}"
  using escapeChar_safe
  by (fastforce simp add: escapeHtml_one_pass split: if_splits sum.splits)


lemma hexDigit_table: "list_all (\<lambda>k. hexDigit k \<notin> {0x3C, 0x3E}) [0..<16]"
  by code_simp

lemma hexDigit_safe: "n < 16 \<Longrightarrow> hexDigit n \<notin> {0x3C, 0x3E}"
  using hexDigit_table unfolding list_all_iff by (metis atLeastLessThan_iff set_upt zero_le)

lemma percentByte_safe: "b < 256 \<Longrightarrow> c \<in> set (percentByte b) \<Longrightarrow> c \<notin> {0x3C, 0x3E}"
proof -
  assume b: "b < 256" and c: "c \<in> set (percentByte b)"
  have "b div 16 < 16" "b mod 16 < 16" using b by simp_all
  then have "hexDigit (b div 16) \<notin> {0x3C, 0x3E}" "hexDigit (b mod 16) \<notin> {0x3C, 0x3E}"
    using hexDigit_safe by blast+
  then show ?thesis using c by (auto simp add: percentByte_def)
qed

lemma utf8_bytes: "cp < 0x110000 \<Longrightarrow> b \<in> set (utf8 cp) \<Longrightarrow> b < 256"
  by (auto simp add: utf8_def split: if_splits)

lemma percentEncode_safe:
  "cp < 0x110000 \<Longrightarrow> c \<in> set (percentEncode cp) \<Longrightarrow> c \<notin> {0x3C, 0x3E}"
  using utf8_bytes percentByte_safe by (fastforce simp add: percentEncode_def)

lemma uriUnreserved_safe: "uriUnreserved c \<Longrightarrow> c \<notin> {0x3C, 0x3E}"
  by (auto simp add: uriUnreserved_def)

lemma unat16: "unat (c :: 16 word) < 0x110000"
proof -
  have "unat c < 2 ^ 16" using unsigned_less[of c, where 'a = nat] by simp
  then show ?thesis by simp
qed

lemma surrogate_pair:
  fixes c d :: "16 word"
  assumes "c \<le> 0xDBFF" "d \<le> 0xDFFF"
  shows "0x10000 + (unat c - 0xD800) * 0x400 + (unat d - 0xDC00) < (0x110000 :: nat)"
proof -
  have "unat c \<le> 0xDBFF" "unat d \<le> 0xDFFF"
    using assms by (simp_all add: word_le_nat_alt)
  then show ?thesis by simp
qed

lemma uriEncode_safe:
  "uriEncode s = Inr r \<Longrightarrow> c \<in> set r \<Longrightarrow> c \<notin> {0x3C, 0x3E}"
proof (induction s arbitrary: r rule: uriEncode.induct)
  case 1
  then show ?case by simp
next
  case (2 x xs)
  show ?case
  proof (cases "uriUnreserved x")
    case True
    then obtain r' where r': "uriEncode xs = Inr r'" "r = x # r'"
      using "2.prems"(1) by (auto split: sum.splits)
    show ?thesis
      using "2.IH"(1)[OF True r'(1)] r'(2) "2.prems"(2) uriUnreserved_safe[OF True] by auto
  next
    case nu: False
    show ?thesis
    proof (cases "0xDC00 \<le> x \<and> x \<le> 0xDFFF")
      case True
      then show ?thesis using "2.prems"(1) nu by simp
    next
      case nl: False
      show ?thesis
      proof (cases "0xD800 \<le> x \<and> x \<le> 0xDBFF")
        case hi: True
        then obtain d ds r' where xs: "xs = d # ds" and d: "0xDC00 \<le> d \<and> d \<le> 0xDFFF"
          and r': "uriEncode ds = Inr r'"
          and r: "r = percentEncode (0x10000 + (unat x - 0xD800) * 0x400 + (unat d - 0xDC00)) @ r'"
          using "2.prems"(1) nu nl by (auto split: list.splits if_splits sum.splits)
        have ih: "c \<in> set r' \<Longrightarrow> c \<notin> {0x3C, 0x3E}"
          using "2.IH"(2)[OF nu nl hi xs d r'] .
        have pe: "c \<in> set (percentEncode (0x10000 + (unat x - 0xD800) * 0x400 + (unat d - 0xDC00)))
                  \<Longrightarrow> c \<notin> {0x3C, 0x3E}"
          using percentEncode_safe[OF surrogate_pair] hi d by blast
        show ?thesis using ih pe r "2.prems"(2) by auto
      next
        case nh: False
        then obtain r' where r': "uriEncode xs = Inr r'"
          and r: "r = percentEncode (unat x) @ r'"
          using "2.prems"(1) nu nl by (auto split: sum.splits)
        have ih: "c \<in> set r' \<Longrightarrow> c \<notin> {0x3C, 0x3E}"
          using "2.IH"(3)[OF nu nl nh r'] .
        have pe: "c \<in> set (percentEncode (unat x)) \<Longrightarrow> c \<notin> {0x3C, 0x3E}"
          using percentEncode_safe[OF unat16] by blast
        show ?thesis using ih pe r "2.prems"(2) by auto
      qed
    qed
  qed
qed

lemma uriEncode_error: "uriEncode s = Inl e \<Longrightarrow> e = URIError"
  by (induction s arbitrary: e rule: uriEncode.induct)
     (auto split: if_splits sum.splits list.splits)



lemma unreserved_small: "uriUnreserved c \<Longrightarrow> c \<le> 0x7E"
  unfolding uriUnreserved_def
  by (elim disjE conjE) (auto elim: order_trans)

lemma unreserved_not_surrogate: "uriUnreserved c \<Longrightarrow> \<not> (0xD800 \<le> c \<and> c \<le> 0xDFFF)"
proof
  assume "uriUnreserved c" and s: "0xD800 \<le> c \<and> c \<le> 0xDFFF"
  then have "c \<le> 0x7E" by (simp add: unreserved_small)
  moreover have "(0x7E :: 16 word) < 0xD800" by simp
  ultimately show False using s by (meson leD le_less_trans)
qed

lemma surrogate_ranges:
  fixes c :: "16 word"
  shows "(0xD800 \<le> c \<and> c \<le> 0xDFFF)
           \<longleftrightarrow> (0xD800 \<le> c \<and> c \<le> 0xDBFF) \<or> (0xDC00 \<le> c \<and> c \<le> 0xDFFF)"
proof -
  have a: "(0xDBFF :: 16 word) \<le> 0xDFFF" "(0xD800 :: 16 word) \<le> 0xDC00" by simp_all
  have b: "c \<le> 0xDBFF \<or> 0xDC00 \<le> c"
  proof (cases "c \<le> 0xDBFF")
    case False
    then have "0xDBFF < c" by simp
    then have "0xDC00 \<le> c" by (simp add: word_less_nat_alt word_le_nat_alt)
    then show ?thesis by simp
  qed simp
  show ?thesis using a b by (meson order_trans)
qed

lemma low_not_high:
  fixes c :: "16 word"
  shows "0xDC00 \<le> c \<Longrightarrow> \<not> c \<le> 0xDBFF"
proof
  assume "0xDC00 \<le> c" "c \<le> 0xDBFF"
  then have "(0xDC00 :: 16 word) \<le> 0xDBFF" by (rule order_trans)
  then show False by simp
qed

lemma uriEncode_total:
  "(\<exists>r. uriEncode s = Inr r) \<longleftrightarrow> noLoneSurrogate s"
proof (induction s rule: noLoneSurrogate.induct)
  case 1
  show ?case by simp
next
  case (2 c)
  show ?case
    using unreserved_not_surrogate[of c] surrogate_ranges[of c] by auto
next
  case (3 c d ds)
  show ?case
  proof (cases "0xD800 \<le> c \<and> c \<le> 0xDBFF")
    case hi: True
    have nu: "\<not> uriUnreserved c"
      using unreserved_not_surrogate[of c] surrogate_ranges[of c] hi by blast
    have nl: "\<not> (0xDC00 \<le> c \<and> c \<le> 0xDFFF)" using hi low_not_high[of c] by blast
    have e: "uriEncode (c # d # ds) =
               (if 0xDC00 \<le> d \<and> d \<le> 0xDFFF then
                  (case uriEncode ds of
                     Inl e \<Rightarrow> Inl e
                   | Inr r \<Rightarrow>
                       Inr (percentEncode
                              (0x10000 + (unat c - 0xD800) * 0x400 + (unat d - 0xDC00)) @ r))
                else Inl URIError)"
      using hi nu nl by auto
    have w: "noLoneSurrogate (c # d # ds)
               \<longleftrightarrow> 0xDC00 \<le> d \<and> d \<le> 0xDFFF \<and> noLoneSurrogate ds"
      using hi by auto
    show ?thesis unfolding e w using "3.IH"(1)[OF hi]
      by (cases "uriEncode ds") auto
  next
    case nh: False
    have w: "noLoneSurrogate (c # d # ds)
               \<longleftrightarrow> \<not> (0xDC00 \<le> c \<and> c \<le> 0xDFFF) \<and> noLoneSurrogate (d # ds)"
      using nh by auto
    show ?thesis
    proof (cases "0xDC00 \<le> c \<and> c \<le> 0xDFFF")
      case True
      then have nu: "\<not> uriUnreserved c"
        using unreserved_not_surrogate[of c] surrogate_ranges[of c] by blast
      have "uriEncode (c # d # ds) = Inl URIError" using True nu by auto
      then show ?thesis unfolding w using True by auto
    next
      case nl: False
      have e: "uriEncode (c # d # ds) =
                 (case uriEncode (d # ds) of
                    Inl e \<Rightarrow> Inl e
                  | Inr r \<Rightarrow> Inr ((if uriUnreserved c then [c] else percentEncode (unat c)) @ r))"
        using nh nl by (auto split: sum.splits)
      show ?thesis unfolding e w using nl "3.IH"(2)[OF nh]
        by (cases "uriEncode (d # ds)") auto
    qed
  qed
qed

lemma cannotConvert_truthy: "cannotConvert v \<Longrightarrow> truthy v"
  by (cases v) simp_all

lemma ToString_result: "(\<exists>t. ToString nts v = Inr t) \<longleftrightarrow> \<not> cannotConvert v"
  by (simp add: ToString_def)

lemma escapeHtml_result: "(\<exists>r. escapeHtml nts v = Inr r) \<longleftrightarrow> (\<exists>t. ToString nts v = Inr t)"
  using cannotConvert_truthy[of v]
  by (auto simp add: escapeHtml_def ToString_def)

lemma escapeHtml_error: "escapeHtml nts v = Inl e \<Longrightarrow> e = TypeError"
  by (auto simp add: escapeHtml_def split: if_splits sum.splits dest: ToString_error)

lemma encodeURIComponent_result:
  "(\<exists>r. encodeURIComponent nts v = Inr r)
     \<longleftrightarrow> (\<exists>n. ToString nts v = Inr n \<and> noLoneSurrogate n)"
proof (cases "ToString nts v")
  case (Inl e)
  then show ?thesis by (simp add: encodeURIComponent_def)
next
  case (Inr n)
  then show ?thesis using uriEncode_total[of n] by (simp add: encodeURIComponent_def)
qed

lemma encodeURIComponent_safe:
  "encodeURIComponent nts v = Inr r \<Longrightarrow> c \<in> set r \<Longrightarrow> c \<notin> {0x3C, 0x3E}"
  using uriEncode_safe by (auto simp add: encodeURIComponent_def split: sum.splits)

lemma encodeURIComponent_error:
  "encodeURIComponent nts v = Inl e \<Longrightarrow> e = TypeError \<or> e = URIError"
  by (auto simp add: encodeURIComponent_def split: sum.splits
           dest: ToString_error uriEncode_error)

lemma popup_form:
  assumes "createStorePopupContent nts config s = Inr content"
  obtains enc safeName safeFlavor safeAddress safePhone where
    "encodeURIComponent nts (name s) = Inr enc"
    "escapeHtml nts (name s) = Inr safeName"
    "escapeHtml nts (flavorType s) = Inr safeFlavor"
    "escapeHtml nts (address s) = Inr safeAddress"
    "escapeHtml nts (phone s) = Inr safePhone"
    "content = popupOpen @ asc ''https://www.google.com/maps/search/'' @ enc
       @ popupAfterUrl @ POPUP_LINK config @ popupAfterLinkClass
       @ safeName @ popupAfterName
       @ (if isSpecialShape s
          then POPUP_FLAVOR config @ asc '' '' @ POPUP_FLAVOR_MULTILINE config
          else POPUP_FLAVOR config)
       @ popupAfterFlavorClass @ asc ''color: '' @ displayColor s @ asc '';''
       @ popupAfterStyle
       @ (if isSpecialShape s
          then replaceFirst (asc '' ('') (asc ''<br>('') safeFlavor
          else safeFlavor)
       @ popupAfterFlavor @ safeAddress @ popupAfterAddress @ safePhone @ popupClose"
  using assms
  by (auto simp add: createStorePopupContent_def Let_def split: sum.splits)

lemma popup_error:
  "createStorePopupContent nts config s = Inl e \<Longrightarrow> e = URIError \<or> e = TypeError"
  by (auto simp add: createStorePopupContent_def Let_def split: sum.splits
           dest: escapeHtml_error encodeURIComponent_error)

lemma popup_steps:
  "(\<exists>content. createStorePopupContent nts config s = Inr content) \<longleftrightarrow>
     (\<exists>a. escapeHtml nts (name s) = Inr a) \<and>
     (\<exists>b. encodeURIComponent nts (name s) = Inr b) \<and>
     (\<exists>c. escapeHtml nts (address s) = Inr c) \<and>
     (\<exists>d. escapeHtml nts (phone s) = Inr d) \<and>
     (\<exists>f. escapeHtml nts (flavorType s) = Inr f)"
  by (auto simp add: createStorePopupContent_def Let_def split: sum.splits)

lemma popup_total:
  "(\<exists>content. createStorePopupContent nts config s = Inr content) \<longleftrightarrow>
     (\<exists>n. ToString nts (name s) = Inr n \<and> noLoneSurrogate n) \<and>
     (\<exists>a. ToString nts (address s) = Inr a) \<and>
     (\<exists>p. ToString nts (phone s) = Inr p) \<and>
     (\<exists>f. ToString nts (flavorType s) = Inr f)"
  unfolding popup_steps escapeHtml_result encodeURIComponent_result by blast

lemma encodeURIComponent_lone:
  "encodeURIComponent nts v = Inl URIError
     \<longleftrightarrow> (\<exists>n. ToString nts v = Inr n \<and> \<not> noLoneSurrogate n)"
proof (cases "ToString nts v")
  case (Inl e)
  then show ?thesis using ToString_error[OF Inl] by (simp add: encodeURIComponent_def)
next
  case (Inr n)
  show ?thesis
  proof (cases "uriEncode n")
    case (Inl e)
    then have "e = URIError" by (rule uriEncode_error)
    then show ?thesis using Inl Inr uriEncode_total[of n] by (simp add: encodeURIComponent_def)
  next
    case r: (Inr r)
    then show ?thesis using Inr uriEncode_total[of n] by (auto simp add: encodeURIComponent_def)
  qed
qed

text \<open>
  The \<open>URIError\<close> can only come from the link, and does whenever the name converts to a
  string with a lone surrogate: the name is escaped before, which throws no more than
  its conversion does.
\<close>

lemma popup_lone:
  "createStorePopupContent nts config s = Inl URIError
     \<longleftrightarrow> (\<exists>n. ToString nts (name s) = Inr n \<and> \<not> noLoneSurrogate n)"
proof (cases "escapeHtml nts (name s)")
  case (Inl e)
  then have e: "e = TypeError" by (rule escapeHtml_error)
  have "\<not> (\<exists>t. ToString nts (name s) = Inr t)"
    using Inl escapeHtml_result[of nts "name s"] by simp
  then show ?thesis using Inl e by (simp add: createStorePopupContent_def)
next
  case sn: (Inr safeName)
  show ?thesis
  proof (cases "encodeURIComponent nts (name s)")
    case (Inl e)
    then show ?thesis using sn encodeURIComponent_lone[of nts "name s"]
      by (auto simp add: createStorePopupContent_def)
  next
    case enc: (Inr enc)
    have n: "\<not> (\<exists>n. ToString nts (name s) = Inr n \<and> \<not> noLoneSurrogate n)"
      using enc encodeURIComponent_lone[of nts "name s"] by simp
    have "createStorePopupContent nts config s \<noteq> Inl URIError"
      using sn enc
      by (auto simp add: createStorePopupContent_def Let_def split: sum.splits
               dest: escapeHtml_error)
    then show ?thesis using n by simp
  qed
qed

lemma no_angle_filter:
  "(\<And>c. c \<in> set xs \<Longrightarrow> c \<notin> {0x3C, 0x3E :: 16 word}) \<Longrightarrow>
   filter (\<lambda>c. c = 0x3C \<or> c = 0x3E) xs = []"
  by (induction xs) auto

lemma popup_angles:
  assumes "createStorePopupContent nts config s = Inr content"
      and "escapeHtml nts (flavorType s) = Inr safeFlavor"
      and "escapeHtml nts (address s) = Inr safeAddress"
      and "escapeHtml nts (phone s) = Inr safePhone"
  shows "filter (\<lambda>c. c = 0x3C \<or> c = 0x3E) content =
         filter (\<lambda>c. c = 0x3C \<or> c = 0x3E)
           (popupOpen @ asc ''https://www.google.com/maps/search/''
             @ popupAfterUrl @ POPUP_LINK config @ popupAfterLinkClass @ popupAfterName
             @ (if isSpecialShape s
                then POPUP_FLAVOR config @ asc '' '' @ POPUP_FLAVOR_MULTILINE config
                else POPUP_FLAVOR config)
             @ popupAfterFlavorClass @ asc ''color: '' @ displayColor s @ asc '';''
             @ popupAfterStyle
             @ (if isSpecialShape s
                then replaceFirst (asc '' ('') (asc ''<br>('') safeFlavor
                else safeFlavor)
             @ popupAfterFlavor @ safeAddress @ popupAfterAddress @ safePhone @ popupClose)"
proof -
  obtain enc safeName where enc: "encodeURIComponent nts (name s) = Inr enc"
    and sn: "escapeHtml nts (name s) = Inr safeName"
    and content: "content = popupOpen @ asc ''https://www.google.com/maps/search/'' @ enc
       @ popupAfterUrl @ POPUP_LINK config @ popupAfterLinkClass
       @ safeName @ popupAfterName
       @ (if isSpecialShape s
          then POPUP_FLAVOR config @ asc '' '' @ POPUP_FLAVOR_MULTILINE config
          else POPUP_FLAVOR config)
       @ popupAfterFlavorClass @ asc ''color: '' @ displayColor s @ asc '';''
       @ popupAfterStyle
       @ (if isSpecialShape s
          then replaceFirst (asc '' ('') (asc ''<br>('') safeFlavor
          else safeFlavor)
       @ popupAfterFlavor @ safeAddress @ popupAfterAddress @ safePhone @ popupClose"
    using assms(2,3,4) by (auto intro: popup_form[OF assms(1)])
  have e1: "filter (\<lambda>c. c = 0x3C \<or> c = 0x3E) enc = []"
    using encodeURIComponent_safe[OF enc] by (rule no_angle_filter)
  have e2: "filter (\<lambda>c. c = 0x3C \<or> c = 0x3E) safeName = []"
  proof (rule no_angle_filter)
    fix c assume "c \<in> set safeName"
    then show "c \<notin> {0x3C, 0x3E}" using escapeHtml_safe[OF sn] by blast
  qed
  show ?thesis unfolding content by (simp only: filter_append e1 e2 append_Nil)
qed

text \<open>
  Claim C9, as amended. \<open>escapeHtml\<close> gives the empty string for a falsy value and
  otherwise writes each of the five characters \<open>& < > " '\<close> of the value's string as its
  entity and leaves every other character as it is: replacing the ampersand first makes
  the five replacements in sequence equal to this single pass. Its result holds none
  of \<open>< > " '\<close>. Not every store has a popup: it is produced exactly when the name, the address, the phone and the
  flavour text can be converted to strings (none is an object with an own \<open>toString\<close>
  member or an array holding one) and the name has no lone surrogate; else the
  conversion throws a \<open>TypeError\<close>, or \<open>encodeURIComponent\<close> a \<open>URIError\<close>, which it does
  exactly when the name converts to a string with a lone surrogate. The popup is the
  template with the encoded name in the link, then the escaped name, the escaped
  flavour text (with \<open><br>\<close> put before its first \<open> (\<close> when special-shaped), the escaped
  address and the escaped phone, in this order; and its \<open><\<close> and \<open>>\<close> characters are the
  same whatever the name is.
\<close>

theorem popup_escaping:
  "escapeHtml nts text =
     (if \<not> truthy text then Inr []
      else (case ToString nts text of
              Inl e \<Rightarrow> Inl e
            | Inr t \<Rightarrow> Inr (concat (map escapeChar t))))
   \<and> (\<forall>r. escapeHtml nts text = Inr r \<longrightarrow> (\<forall>c \<in> set r. c \<notin> {0x3C, 0x3E, 0x22, 0x27}))
   \<and> (\<forall>e. createStorePopupContent nts config s = Inl e \<longrightarrow> e = URIError \<or> e = TypeError)
   \<and> ((\<exists>content. createStorePopupContent nts config s = Inr content) \<longleftrightarrow>
        (\<exists>n. ToString nts (name s) = Inr n \<and> noLoneSurrogate n) \<and>
        (\<exists>a. ToString nts (address s) = Inr a) \<and>
        (\<exists>p. ToString nts (phone s) = Inr p) \<and>
        (\<exists>f. ToString nts (flavorType s) = Inr f))
   \<and> (createStorePopupContent nts config s = Inl URIError \<longleftrightarrow>
        (\<exists>n. ToString nts (name s) = Inr n \<and> \<not> noLoneSurrogate n))
   \<and> (\<forall>v. (\<exists>t. ToString nts v = Inr t) \<longleftrightarrow> \<not> cannotConvert v)
   \<and> (\<forall>content. createStorePopupContent nts config s = Inr content \<longrightarrow>
        (\<exists>enc safeName safeFlavor safeAddress safePhone.
           encodeURIComponent nts (name s) = Inr enc \<and>
           (\<forall>c \<in> set enc. c \<notin> {0x3C, 0x3E}) \<and>
           escapeHtml nts (name s) = Inr safeName \<and>
           escapeHtml nts (flavorType s) = Inr safeFlavor \<and>
           escapeHtml nts (address s) = Inr safeAddress \<and>
           escapeHtml nts (phone s) = Inr safePhone \<and>
           content = popupOpen @ asc ''https://www.google.com/maps/search/'' @ enc
             @ popupAfterUrl @ POPUP_LINK config @ popupAfterLinkClass
             @ safeName @ popupAfterName
             @ (if isSpecialShape s
                then POPUP_FLAVOR config @ asc '' '' @ POPUP_FLAVOR_MULTILINE config
                else POPUP_FLAVOR config)
             @ popupAfterFlavorClass @ asc ''color: '' @ displayColor s @ asc '';''
             @ popupAfterStyle
             @ (if isSpecialShape s
                then replaceFirst (asc '' ('') (asc ''<br>('') safeFlavor
                else safeFlavor)
             @ popupAfterFlavor @ safeAddress @ popupAfterAddress @ safePhone
             @ popupClose))
   \<and> (\<forall>n' content content'.
        createStorePopupContent nts config s = Inr content \<and>
        createStorePopupContent nts config (s\<lparr>name := n'\<rparr>) = Inr content' \<longrightarrow>
        filter (\<lambda>c. c = 0x3C \<or> c = 0x3E) content = filter (\<lambda>c. c = 0x3C \<or> c = 0x3E) content')"
proof (intro conjI allI impI ballI)
  show "escapeHtml nts text =
     (if \<not> truthy text then Inr []
      else (case ToString nts text of
              Inl e \<Rightarrow> Inl e
            | Inr t \<Rightarrow> Inr (concat (map escapeChar t))))"
    by (rule escapeHtml_one_pass)
next
  fix r c assume "escapeHtml nts text = Inr r" "c \<in> set r"
  then show "c \<notin> {0x3C, 0x3E, 0x22, 0x27}" by (rule escapeHtml_safe)
next
  fix e assume "createStorePopupContent nts config s = Inl e"
  then show "e = URIError \<or> e = TypeError" by (rule popup_error)
next
  show "(\<exists>content. createStorePopupContent nts config s = Inr content) \<longleftrightarrow>
        (\<exists>n. ToString nts (name s) = Inr n \<and> noLoneSurrogate n) \<and>
        (\<exists>a. ToString nts (address s) = Inr a) \<and>
        (\<exists>p. ToString nts (phone s) = Inr p) \<and>
        (\<exists>f. ToString nts (flavorType s) = Inr f)"
    by (rule popup_total)
next
  show "createStorePopupContent nts config s = Inl URIError \<longleftrightarrow>
        (\<exists>n. ToString nts (name s) = Inr n \<and> \<not> noLoneSurrogate n)"
    by (rule popup_lone)
next
  fix v show "(\<exists>t. ToString nts v = Inr t) \<longleftrightarrow> \<not> cannotConvert v"
    by (rule ToString_result)
next
  fix content assume h: "createStorePopupContent nts config s = Inr content"
  obtain enc safeName safeFlavor safeAddress safePhone where
    enc: "encodeURIComponent nts (name s) = Inr enc" and
    rest: "escapeHtml nts (name s) = Inr safeName"
      "escapeHtml nts (flavorType s) = Inr safeFlavor"
      "escapeHtml nts (address s) = Inr safeAddress"
      "escapeHtml nts (phone s) = Inr safePhone"
      "content = popupOpen @ asc ''https://www.google.com/maps/search/'' @ enc
         @ popupAfterUrl @ POPUP_LINK config @ popupAfterLinkClass
         @ safeName @ popupAfterName
         @ (if isSpecialShape s
            then POPUP_FLAVOR config @ asc '' '' @ POPUP_FLAVOR_MULTILINE config
            else POPUP_FLAVOR config)
         @ popupAfterFlavorClass @ asc ''color: '' @ displayColor s @ asc '';''
         @ popupAfterStyle
         @ (if isSpecialShape s
            then replaceFirst (asc '' ('') (asc ''<br>('') safeFlavor
            else safeFlavor)
         @ popupAfterFlavor @ safeAddress @ popupAfterAddress @ safePhone @ popupClose"
    using h by (rule popup_form)
  have "\<forall>c \<in> set enc. c \<notin> {0x3C, 0x3E}" using encodeURIComponent_safe[OF enc] by blast
  then show "\<exists>enc safeName safeFlavor safeAddress safePhone.
           encodeURIComponent nts (name s) = Inr enc \<and>
           (\<forall>c \<in> set enc. c \<notin> {0x3C, 0x3E}) \<and>
           escapeHtml nts (name s) = Inr safeName \<and>
           escapeHtml nts (flavorType s) = Inr safeFlavor \<and>
           escapeHtml nts (address s) = Inr safeAddress \<and>
           escapeHtml nts (phone s) = Inr safePhone \<and>
           content = popupOpen @ asc ''https://www.google.com/maps/search/'' @ enc
             @ popupAfterUrl @ POPUP_LINK config @ popupAfterLinkClass
             @ safeName @ popupAfterName
             @ (if isSpecialShape s
                then POPUP_FLAVOR config @ asc '' '' @ POPUP_FLAVOR_MULTILINE config
                else POPUP_FLAVOR config)
             @ popupAfterFlavorClass @ asc ''color: '' @ displayColor s @ asc '';''
             @ popupAfterStyle
             @ (if isSpecialShape s
                then replaceFirst (asc '' ('') (asc ''<br>('') safeFlavor
                else safeFlavor)
             @ popupAfterFlavor @ safeAddress @ popupAfterAddress @ safePhone
             @ popupClose"
    using enc rest by blast
next
  fix n' content content'
  assume h: "createStorePopupContent nts config s = Inr content \<and>
        createStorePopupContent nts config (s\<lparr>name := n'\<rparr>) = Inr content'"
  obtain safeFlavor safeAddress safePhone where
    f: "escapeHtml nts (flavorType s) = Inr safeFlavor" and
    a: "escapeHtml nts (address s) = Inr safeAddress" and
    p: "escapeHtml nts (phone s) = Inr safePhone"
    using h popup_steps[of nts config s] by blast
  have c1: "createStorePopupContent nts config s = Inr content" using h by simp
  have c2: "createStorePopupContent nts config (s\<lparr>name := n'\<rparr>) = Inr content'" using h by simp
  show "filter (\<lambda>c. c = 0x3C \<or> c = 0x3E) content = filter (\<lambda>c. c = 0x3C \<or> c = 0x3E) content'"
    using popup_angles[OF c1 f a p]
      popup_angles[OF c2, of safeFlavor safeAddress safePhone] f a p
    by simp
qed

lemma popup_scriptStore:
  "escapeHtml noNumbers (name scriptStore) = Inr (asc ''&lt;script&gt;'')"
  "encodeURIComponent noNumbers (name scriptStore) = Inr (asc ''%3Cscript%3E'')"
  by (simp_all add: scriptStore_def escapeHtml_def encodeURIComponent_def ToString_def asc_def
        replaceAll_def uriUnreserved_def percentEncode_def utf8_def percentByte_def hexDigit_def)

text \<open>
  A store named \<open><script>\<close> has a popup; the name is written with entities in it and
  percent-encoded in its link.
\<close>

theorem popup_escaping_witness:
  "(\<exists>content. createStorePopupContent noNumbers CONFIG scriptStore = Inr content) \<and>
   escapeHtml noNumbers (name scriptStore) = Inr (concat (map escapeChar (asc ''<script>''))) \<and>
   concat (map escapeChar (asc ''<script>'')) = asc ''&lt;script&gt;'' \<and>
   encodeURIComponent noNumbers (name scriptStore) = Inr (asc ''%3Cscript%3E'')"
proof -
  have n: "ToString noNumbers (name scriptStore) = Inr (asc ''<script>'')"
    "noLoneSurrogate (asc ''<script>'')"
    by (simp_all add: scriptStore_def ToString_def asc_def)
  have o: "ToString noNumbers (address scriptStore) = Inr []"
    "ToString noNumbers (phone scriptStore) = Inr []"
    "ToString noNumbers (flavorType scriptStore) = Inr []"
    by (simp_all add: scriptStore_def ToString_def)
  have t: "truthy (name scriptStore)" by (simp add: scriptStore_def asc_def)
  have c: "concat (map escapeChar (asc ''<script>'')) = asc ''&lt;script&gt;''"
    by (simp add: asc_def escapeChar_def)
  show ?thesis
    using popup_escaping[of noNumbers "name scriptStore" CONFIG scriptStore] n o t c
      popup_scriptStore(2)
    by simp
qed

text \<open>
  The claim as stated fails: not every store has a popup. A record whose name is an
  object with an own \<open>toString\<close> member is accepted, the name being truthy, and for
  the store it gives \<open>String(text)\<close> throws in \<open>escapeHtml\<close>.
\<close>

theorem popup_object_name_counterexample:
  "normalizeStoreData (Element recordObjectName) CONFIG = Inr (Accepted storeObjectName) \<and>
   createStorePopupContent noNumbers CONFIG storeObjectName = Inl TypeError"
proof -
  have n: "normalizeStoreData (Element recordObjectName) CONFIG
             = Inr (Accepted storeObjectName)"
    by (simp add: recordObjectName_def storeObjectName_def normalize_eval)
  have p: "createStorePopupContent noNumbers CONFIG storeObjectName = Inl TypeError"
    by (simp add: createStorePopupContent_def escapeHtml_def ToString_def storeObjectName_def)
  show ?thesis using n p by simp
qed

text \<open>
  Nor has a store whose name is a lone surrogate: the record is accepted, and
  \<open>encodeURIComponent\<close> throws.
\<close>

lemma popup_lone_surrogate:
  "normalizeStoreData (Element recordLoneSurrogate) CONFIG = Inr (Accepted storeLoneSurrogate) \<and>
   createStorePopupContent noNumbers CONFIG storeLoneSurrogate = Inl URIError"
proof -
  have n: "normalizeStoreData (Element recordLoneSurrogate) CONFIG
             = Inr (Accepted storeLoneSurrogate)"
    by (simp add: recordLoneSurrogate_def storeLoneSurrogate_def normalize_eval)
  have e: "escapeHtml noNumbers (name storeLoneSurrogate) = Inr [0xD83D]"
    by (simp add: storeLoneSurrogate_def escapeHtml_def ToString_def replaceAll_def asc_def)
  have u: "encodeURIComponent noNumbers (name storeLoneSurrogate) = Inl URIError"
    by (simp add: storeLoneSurrogate_def encodeURIComponent_def ToString_def uriUnreserved_def)
  have p: "createStorePopupContent noNumbers CONFIG storeLoneSurrogate = Inl URIError"
    by (simp add: createStorePopupContent_def e u)
  show ?thesis using n p by simp
qed

end
